theory Spec2Isabelle
  imports Main "HOL-Library.Word" "HOL-Library.Sublist" "HOL-Library.Char_ord"
    "HOL-Library.List_Lexorder"
begin

section \<open>The runtime-support entry points of compiler_llvm/runtime_support_llvm.cc\<close>

text \<open>
  The file under verification is a glue layer: every entry point is a few lines that
  call into the thread, the class model and the resolver. The entry points are embedded
  line by line. What they call is declared in headers outside the file (thread.h,
  object.h, runtime_support.h, dex_file.h); each such collaborator is either a field of
  the record \<open>runtime\<close> (a parameter of the development) or a definition whose text
  block starts with the words "Modelled from the spec".
\<close>

subsection \<open>Data model\<close>

text \<open>A resolved runtime type (\<open>Class*\<close>), named by its descriptor.\<close>

type_synonym klass = string

text \<open>A managed object (\<open>Object*\<close>): its runtime type and, for a throwable, its message.
  A nullable pointer is an \<open>option\<close>, \<open>None\<close> being \<open>NULL\<close>.\<close>

record object =
  obj_class :: klass
  detail_message :: "string option"

text \<open>How an entry point can end the process instead of returning: a dereference of
  \<open>NULL\<close>, \<open>LOG(FATAL)\<close> with its message, or a failed \<open>CHECK\<close>/\<open>DCHECK\<close> with
  its condition.\<close>

datatype fatal = NullDereference | LogFatal string | CheckFailed string

text \<open>The calls that change a thread, recorded in the order they are made.\<close>

datatype event =
    Call_TraceMethodUnwindFromCode
  | Call_SetStackEndForStackOverflow
  | Call_ResetDefaultStackEnd
  | Call_ThrowNewException klass "string option"
  | Call_SetException object
  | Call_DecodeJObject nat

text \<open>The worker (\<open>Thread\<close>): the single pending-exception slot, the stack bounds
  (hard limit \<open>stack_begin\<close>, soft limit \<open>stack_end\<close> and its default value), the stack
  size, the table behind JNI handles, and the record of calls.\<close>

record thread =
  GetException :: "object option"
  stack_begin :: nat
  stack_end :: nat
  default_stack_end :: nat
  stack_size :: nat
  jni_references :: "nat \<Rightarrow> object option"
  calls :: "event list"

text \<open>The collaborators the file does not define, as parameters: the part of the
  assignable-from relation beyond reflexivity, \<open>PrettyDescriptor\<close>,
  \<open>Class::GetComponentType\<close>, the two queries of \<open>Runtime::Current()\<close>, the
  constants \<open>DexFile::kDexNoIndex16\<close> and \<open>KB\<close>, and whether \<open>DCHECK\<close> is compiled
  in.\<close>

record runtime =
  proper_supertype :: "klass \<Rightarrow> klass \<Rightarrow> bool"
  PrettyDescriptor :: "klass \<Rightarrow> string"
  GetComponentType :: "klass \<Rightarrow> klass option"
  IsMethodTracingActive :: bool
  GetDefaultStackSize :: nat
  kDexNoIndex16 :: "16 word"
  kIsDebugBuild :: bool
  KB :: nat

text \<open>Modelled from the spec: \<open>Class::IsAssignableFrom\<close> is declared in object.h, which
  is not part of the file. The spec (data model, Runtime Type) says that a runtime type
  "supports an assignable-from relation (reflexive, and covariant for arrays)": the
  relation holds between a type and itself, and otherwise where the class hierarchy of
  the runtime (\<open>proper_supertype rt dest src\<close>) says so.\<close>

definition IsAssignableFrom :: "runtime \<Rightarrow> klass \<Rightarrow> klass \<Rightarrow> bool" where
  "IsAssignableFrom rt dest src = (dest = src \<or> proper_supertype rt dest src)"

text \<open>Modelled from the spec: \<open>Thread::SetException\<close>, \<open>Thread::ThrowNewException\<close> and
  \<open>Thread::ThrowNewExceptionF\<close> are declared in thread.h, which is not part of the file.
  The spec (4.2): each throw operation "constructs a typed exception object and installs
  it into the worker's pending-exception slot, replacing any previous value".\<close>

definition SetException :: "object \<Rightarrow> thread \<Rightarrow> thread" where
  "SetException new_exception t =
     t\<lparr>GetException := Some new_exception,
       calls := calls t @ [Call_SetException new_exception]\<rparr>"

definition ThrowNewException :: "klass \<Rightarrow> string option \<Rightarrow> thread \<Rightarrow> thread" where
  "ThrowNewException descriptor msg t =
     t\<lparr>GetException := Some \<lparr>obj_class = descriptor, detail_message = msg\<rparr>,
       calls := calls t @ [Call_ThrowNewException descriptor msg]\<rparr>"

definition ThrowNewExceptionF :: "klass \<Rightarrow> string \<Rightarrow> thread \<Rightarrow> thread" where
  "ThrowNewExceptionF descriptor formatted t = ThrowNewException descriptor (Some formatted) t"

definition IsExceptionPending :: "thread \<Rightarrow> bool" where
  "IsExceptionPending t = (GetException t \<noteq> None)"

text \<open>The state the entry points act on: the current thread (\<open>Thread::Current()\<close>), the
  warnings written by \<open>LOG(WARNING)\<close>, the resolution caches keyed by calling method and
  index, and the storage of fields keyed by receiver (\<open>None\<close> for a static field) and
  field.\<close>

record world =
  self :: thread
  log_warnings :: "string list"
  resolved_fields :: "nat \<times> 32 word \<Rightarrow> nat option"
  resolved_methods :: "nat \<times> 32 word \<Rightarrow> nat option"
  storage32 :: "object option \<times> nat \<Rightarrow> 32 word"
  storage64 :: "object option \<times> nat \<Rightarrow> 64 word"
  storage_obj :: "object option \<times> nat \<Rightarrow> object option"

subsection \<open>Exception dispatch: catch-block search\<close>

text \<open>Modelled from the spec: the code item and \<open>CatchHandlerIterator\<close> are declared in
  dex_file.h, which is not part of the file. The spec (data model, Exception Table): "an
  ordered sequence of (address range, handler-type, handler-location) triples attached
  to a compiled method; iterated in table order". The iterator for a location yields,
  in table order, the handler types of the entries whose range holds the location.\<close>

record catch_entry =
  start_addr :: nat
  end_addr :: nat
  handler_type_idx :: "16 word"
  handler_addr :: nat

text \<open>What \<open>MethodHelper\<close> reads of a compiled method: its code item, the resolved
  types of its dex cache (\<open>None\<close> for an unresolved type) and the descriptors of its
  type indices.\<close>

record Method =
  GetCodeItem :: "catch_entry list"
  GetDexCacheResolvedType :: "16 word \<Rightarrow> klass option"
  GetTypeDescriptorFromTypeIdx :: "16 word \<Rightarrow> string"

definition CatchHandlerIterator :: "catch_entry list \<Rightarrow> 32 word \<Rightarrow> 16 word list" where
  "CatchHandlerIterator code_item dex_pc =
     map handler_type_idx
       (filter (\<lambda>e. start_addr e \<le> unat dex_pc \<and> unat dex_pc < end_addr e) code_item)"

definition unresolved_warning :: "Method \<Rightarrow> 16 word \<Rightarrow> string" where
  "unresolved_warning mh iter_type_idx =
     ''Unresolved exception class when finding catch block: ''
       @ GetTypeDescriptorFromTypeIdx mh iter_type_idx"

text \<open>The loop of \<open>art_find_catch_block_from_code\<close> over the handlers the iterator still
  holds; \<open>iter_index\<close> is the C \<open>int\<close> counter, a 32-bit word read as signed.\<close>

fun find_catch_loop ::
  "runtime \<Rightarrow> Method \<Rightarrow> klass \<Rightarrow> 16 word list \<Rightarrow> 32 word \<Rightarrow> string list
     \<Rightarrow> 32 word \<times> string list" where
  "find_catch_loop rt mh exception_type [] iter_index lg = (- 1, lg)"
| "find_catch_loop rt mh exception_type (iter_type_idx # it) iter_index lg =
     (if iter_type_idx = kDexNoIndex16 rt then (iter_index, lg)
      else case GetDexCacheResolvedType mh iter_type_idx of
        None \<Rightarrow>
          find_catch_loop rt mh exception_type it (iter_index + 1)
            (lg @ [unresolved_warning mh iter_type_idx])
      | Some iter_exception_type \<Rightarrow>
          if IsAssignableFrom rt iter_exception_type exception_type then (iter_index, lg)
          else find_catch_loop rt mh exception_type it (iter_index + 1) lg)"

definition art_find_catch_block_from_code ::
  "runtime \<Rightarrow> Method \<Rightarrow> 32 word \<Rightarrow> world \<Rightarrow> fatal + (32 word \<times> world)" where
  "art_find_catch_block_from_code rt current_method dex_pc w =
     (case GetException (self w) of
        None \<Rightarrow> Inl NullDereference
      | Some exc \<Rightarrow>
          let exception_type = obj_class exc;
              (r, lg) = find_catch_loop rt current_method exception_type
                          (CatchHandlerIterator (GetCodeItem current_method) dex_pc) 0
                          (log_warnings w)
          in Inr (r, w\<lparr>log_warnings := lg\<rparr>))"

text \<open>When an entry of the table applies to an exception type, in the words of the
  claim: its handler type is the catch-all sentinel, or its declared type is resolved
  and assignable-from the exception's type.\<close>

definition handler_applies :: "runtime \<Rightarrow> Method \<Rightarrow> klass \<Rightarrow> 16 word \<Rightarrow> bool" where
  "handler_applies rt mh exception_type idx =
     (idx = kDexNoIndex16 rt \<or>
      (case GetDexCacheResolvedType mh idx of
         None \<Rightarrow> False
       | Some t \<Rightarrow> IsAssignableFrom rt t exception_type))"

subsection \<open>Exception dispatch: the throw operations\<close>

text \<open>Modelled from the spec: \<open>Thread::SetStackEndForStackOverflow\<close> and
  \<open>Thread::ResetDefaultStackEnd\<close> are declared in thread.h, which is not part of the
  file. The spec's worker owns "a stack-bounds pair (current end, default end)";
  raising a stack overflow must "widen the worker's usable stack region (moving the
  soft limit toward the hard limit)" and afterwards return to the default end. The
  first moves the soft limit onto the hard limit, the second sets it to its default
  value. Of \<open>TraceMethodUnwindFromCode\<close> (trace.h), on which the spec is silent, only
  the call is recorded.\<close>

definition SetStackEndForStackOverflow :: "thread \<Rightarrow> thread" where
  "SetStackEndForStackOverflow t =
     t\<lparr>stack_end := stack_begin t,
       calls := calls t @ [Call_SetStackEndForStackOverflow]\<rparr>"

definition ResetDefaultStackEnd :: "thread \<Rightarrow> thread" where
  "ResetDefaultStackEnd t =
     t\<lparr>stack_end := default_stack_end t,
       calls := calls t @ [Call_ResetDefaultStackEnd]\<rparr>"

definition TraceMethodUnwindFromCode :: "thread \<Rightarrow> thread" where
  "TraceMethodUnwindFromCode t = t\<lparr>calls := calls t @ [Call_TraceMethodUnwindFromCode]\<rparr>"

definition GetStackSize :: "thread \<Rightarrow> nat" where
  "GetStackSize t = stack_size t"

text \<open>What the conversion \<open>%zd\<close> prints for a size.\<close>

fun decimal :: "nat \<Rightarrow> string" where
  "decimal n =
     (if n < 10 then [''0123456789'' ! n]
      else decimal (n div 10) @ [''0123456789'' ! (n mod 10)])"

declare decimal.simps [simp del]

definition art_throw_stack_overflow_from_code :: "runtime \<Rightarrow> world \<Rightarrow> world" where
  "art_throw_stack_overflow_from_code rt w =
     (let thread = self w;
          thread = (if IsMethodTracingActive rt then TraceMethodUnwindFromCode thread
                    else thread);
          thread = SetStackEndForStackOverflow thread;
          thread = ThrowNewExceptionF ''Ljava/lang/StackOverflowError;''
                     (''stack size '' @ decimal (GetStackSize thread div KB rt)
                        @ ''kb; default stack size: ''
                        @ decimal (GetDefaultStackSize rt div KB rt) @ ''kb'')
                     thread;
          thread = ResetDefaultStackEnd thread
      in w\<lparr>self := thread\<rparr>)"

definition art_throw_exception_from_code :: "object option \<Rightarrow> world \<Rightarrow> world" where
  "art_throw_exception_from_code exc w =
     (case exc of
        None \<Rightarrow>
          w\<lparr>self := ThrowNewException ''Ljava/lang/NullPointerException;''
                      (Some ''throw with null exception'') (self w)\<rparr>
      | Some throwable \<Rightarrow> w\<lparr>self := SetException throwable (self w)\<rparr>)"

subsection \<open>Decoding a JNI handle\<close>

text \<open>\<open>Thread::DecodeJObject\<close> is declared in thread.h, which is not part of the file.
  What it yields for a handle is a parameter, the field \<open>jni_references\<close> of the
  thread; the call is recorded.\<close>

definition DecodeJObject :: "nat \<Rightarrow> thread \<Rightarrow> object option \<times> thread" where
  "DecodeJObject obj t =
     (jni_references t obj, t\<lparr>calls := calls t @ [Call_DecodeJObject obj]\<rparr>)"

definition art_decode_jobject_in_thread :: "thread \<Rightarrow> nat \<Rightarrow> object option \<times> thread" where
  "art_decode_jobject_in_thread thread obj =
     (if IsExceptionPending thread then (None, thread)
      else DecodeJObject obj thread)"

subsection \<open>Type checking\<close>

text \<open>A \<open>NULL\<close> type ends the process: in a debug build by the \<open>DCHECK\<close>, otherwise by
  the dereference that follows it. \<open>IsClass()\<close> holds of every value of type \<open>klass\<close>.\<close>

definition art_is_assignable_from_code ::
  "runtime \<Rightarrow> klass option \<Rightarrow> klass option \<Rightarrow> world \<Rightarrow> fatal + (32 word \<times> world)" where
  "art_is_assignable_from_code rt dest_type src_type w =
     (case dest_type of
        None \<Rightarrow> Inl NullDereference
      | Some dest \<Rightarrow>
          (case src_type of
             None \<Rightarrow> Inl NullDereference
           | Some src \<Rightarrow> Inr (if IsAssignableFrom rt dest src then 1 else 0, w)))"

definition art_check_cast_from_code ::
  "runtime \<Rightarrow> klass option \<Rightarrow> klass option \<Rightarrow> world \<Rightarrow> fatal + world" where
  "art_check_cast_from_code rt dest_type src_type w =
     (case dest_type of
        None \<Rightarrow> Inl NullDereference
      | Some dest \<Rightarrow>
          (case src_type of
             None \<Rightarrow> Inl NullDereference
           | Some src \<Rightarrow>
               if \<not> IsAssignableFrom rt dest src
               then Inr (w\<lparr>self := ThrowNewExceptionF ''Ljava/lang/ClassCastException;''
                                    (PrettyDescriptor rt dest @ '' cannot be cast to ''
                                       @ PrettyDescriptor rt src)
                                    (self w)\<rparr>)
               else Inr w))"

definition art_check_put_array_element_from_code ::
  "runtime \<Rightarrow> object option \<Rightarrow> object option \<Rightarrow> world \<Rightarrow> fatal + world" where
  "art_check_put_array_element_from_code rt element array w =
     (case element of
        None \<Rightarrow> Inr w
      | Some el \<Rightarrow>
          (case array of
             None \<Rightarrow> Inl NullDereference
           | Some arr \<Rightarrow>
               let array_class = obj_class arr in
               (case GetComponentType rt array_class of
                  None \<Rightarrow> Inl NullDereference
                | Some component_type \<Rightarrow>
                    let element_class = obj_class el in
                    if \<not> IsAssignableFrom rt component_type element_class
                    then Inr (w\<lparr>self := ThrowNewExceptionF ''Ljava/lang/ArrayStoreException;''
                                         (PrettyDescriptor rt element_class
                                            @ '' cannot be stored in an array of type ''
                                            @ PrettyDescriptor rt array_class)
                                         (self w)\<rparr>)
                    else Inr w)))"

subsection \<open>Runtime support function lookup\<close>

text \<open>\<open>strcmp\<close> of the C library on strings given as the lists of their bytes before the
  terminating NUL (so a C string holds no \<open>CHR 0\<close>): the difference of the first two
  bytes that differ, read as unsigned, the terminator counting as 0.\<close>

fun strcmp :: "string \<Rightarrow> string \<Rightarrow> int" where
  "strcmp [] [] = 0"
| "strcmp [] (y # ys) = - int (of_char y)"
| "strcmp (x # xs) [] = int (of_char x)"
| "strcmp (x # xs) (y # ys) =
     (if x = y then strcmp xs ys else int (of_char x) - int (of_char y))"

definition strlen :: "string \<Rightarrow> nat" where
  "strlen s = length s"

definition cstring :: "string \<Rightarrow> bool" where
  "cstring s = (CHR 0x00 \<notin> set s)"

definition CStringComparator :: "string \<Rightarrow> string \<Rightarrow> bool" where
  "CStringComparator lhs rhs = (strcmp lhs rhs < 0)"

text \<open>\<open>std::lower_bound\<close> of the C++ library, as libstdc++ and STLport write it: a binary
  search over the range of \<open>len\<close> elements that starts at index \<open>first\<close>.\<close>

function lower_bound :: "string list \<Rightarrow> nat \<Rightarrow> nat \<Rightarrow> string \<Rightarrow> nat" where
  "lower_bound names first len val =
     (if 0 < len then
        let half = len div 2;
            middle = first + half
        in if CStringComparator (names ! middle) val
           then lower_bound names (middle + 1) (len - half - 1) val
           else lower_bound names first half val
      else first)"
  by pat_completeness auto
termination
  by (relation "measure (\<lambda>(names, first, len, val). len)") auto

declare lower_bound.simps [simp del]

text \<open>The two tables are built by macros from lists that are not part of the file
  (compiler_runtime_func_list.h, runtime_support_func_list.h); each list is a parameter,
  a sequence of function names with the address of each function. The address of a
  function is never \<open>NULL\<close>, so \<open>NULL\<close> as a result is \<open>None\<close>.\<close>

definition art_find_compiler_runtime_func :: "(string \<times> nat) list \<Rightarrow> string \<Rightarrow> nat option" where
  "art_find_compiler_runtime_func compiler_runtime_func_list nm =
     (let names = map fst compiler_runtime_func_list;
          funcs = map snd compiler_runtime_func_list;
          num_entries = length names;
          name_lbound = lower_bound names 0 num_entries nm
      in if name_lbound < num_entries \<and> strcmp (names ! name_lbound) nm = 0
         then Some (funcs ! name_lbound)
         else None)"

record func_entry_t =
  entry_name :: string
  entry_name_len :: nat
  entry_addr :: nat

definition DEFINE_ENTRY :: "string \<times> nat \<Rightarrow> func_entry_t" where
  "DEFINE_ENTRY e = \<lparr>entry_name = fst e, entry_name_len = length (fst e), entry_addr = snd e\<rparr>"

text \<open>The loop over \<open>tab\<close> from index \<open>i\<close> on.\<close>

fun scan_tab :: "func_entry_t list \<Rightarrow> string \<Rightarrow> nat \<Rightarrow> nat option" where
  "scan_tab [] nm name_len = None"
| "scan_tab (e # tab) nm name_len =
     (if name_len = entry_name_len e \<and> strcmp nm (entry_name e) = 0
      then Some (entry_addr e)
      else scan_tab tab nm name_len)"

definition art_find_runtime_support_func ::
  "(string \<times> nat) list \<Rightarrow> (string \<times> nat) list \<Rightarrow> nat \<Rightarrow> string \<Rightarrow> fatal + nat" where
  "art_find_runtime_support_func compiler_runtime_func_list runtime_support_func_list
       context_addr nm =
     (let tab = map DEFINE_ENTRY runtime_support_func_list in
      case art_find_compiler_runtime_func compiler_runtime_func_list nm of
        Some result \<Rightarrow> Inr result
      | None \<Rightarrow>
          (case scan_tab tab nm (strlen nm) of
             Some a \<Rightarrow> Inr a
           | None \<Rightarrow> Inl (LogFatal (''Error: Can'' @ [CHR 0x27] @ ''t find symbol '' @ nm))))"

subsection \<open>Field and method resolution\<close>

datatype InvokeType = kStatic | kDirect | kVirtual | kSuper | kInterface

text \<open>Modelled from the spec: \<open>FindFieldFast\<close>, \<open>FindFieldFromCode\<close>, \<open>FindMethodFast\<close>
  and \<open>FindMethodFromCode\<close> are declared in runtime_support.h, which is not part of the
  file; only their callers are. The spec (data model, 4.4, 4.5 and the design notes): a
  field or method index is "an index into a caller-scoped constant pool"; "resolution
  results are cached in a per-caller resolution cache", "a cache keyed by (caller,
  index)". The fast path attempts resolution "using only information already cached for
  the calling method (no exception-raising side effects on miss)". The slow path
  performs "full resolution (permission checks ...), caching the result for future
  fast-path hits", validates width and static/instance selection, and on failure
  installs a pending exception and returns null. Method resolution is "against the
  receiver's actual runtime type (interface/virtual) or the referring method's declared
  supertype (super), with access checking".

  A field and a method are named by a number, as is the calling method. What the
  constant pool of a caller holds, what the checks admit, how a method is selected for
  a receiver, and which exception a failure raises are parameters.\<close>

record resolver =
  ResolveField :: "nat \<Rightarrow> 32 word \<Rightarrow> nat option"
  fast_path_admits :: "nat \<Rightarrow> nat \<Rightarrow> bool \<Rightarrow> bool \<Rightarrow> nat \<Rightarrow> bool"
  slow_path_admits :: "nat \<Rightarrow> nat \<Rightarrow> bool \<Rightarrow> bool \<Rightarrow> bool \<Rightarrow> nat \<Rightarrow> bool"
  field_failure :: "nat \<Rightarrow> 32 word \<Rightarrow> object"
  ResolveMethod :: "nat \<Rightarrow> 32 word \<Rightarrow> nat option"
  select_target :: "InvokeType \<Rightarrow> object option \<Rightarrow> nat \<Rightarrow> bool \<Rightarrow> nat \<Rightarrow> nat option"
  method_failure :: "nat \<Rightarrow> 32 word \<Rightarrow> object"
  sizeof_pointer :: nat

definition FindFieldFast ::
  "resolver \<Rightarrow> 32 word \<Rightarrow> nat \<Rightarrow> bool \<Rightarrow> bool \<Rightarrow> nat \<Rightarrow> world \<Rightarrow> nat option" where
  "FindFieldFast rs field_idx referrer is_primitive is_set expected_size w =
     (case resolved_fields w (referrer, field_idx) of
        None \<Rightarrow> None
      | Some field \<Rightarrow>
          if fast_path_admits rs referrer field is_primitive is_set expected_size
          then Some field else None)"

definition FindFieldFromCode ::
  "resolver \<Rightarrow> 32 word \<Rightarrow> nat \<Rightarrow> bool \<Rightarrow> bool \<Rightarrow> bool \<Rightarrow> nat \<Rightarrow> world
     \<Rightarrow> nat option \<times> world" where
  "FindFieldFromCode rs field_idx referrer is_static is_primitive is_set expected_size w =
     (case ResolveField rs referrer field_idx of
        None \<Rightarrow>
          (None, w\<lparr>self := SetException (field_failure rs referrer field_idx) (self w)\<rparr>)
      | Some field \<Rightarrow>
          if slow_path_admits rs referrer field is_static is_primitive is_set expected_size
          then (Some field,
                w\<lparr>resolved_fields := (resolved_fields w)((referrer, field_idx) \<mapsto> field)\<rparr>)
          else (None,
                w\<lparr>self := SetException (field_failure rs referrer field_idx) (self w)\<rparr>))"

definition FindMethodFast ::
  "resolver \<Rightarrow> 32 word \<Rightarrow> object option \<Rightarrow> nat \<Rightarrow> bool \<Rightarrow> InvokeType \<Rightarrow> world
     \<Rightarrow> nat option" where
  "FindMethodFast rs method_idx this_object caller_method access_check type w =
     (case resolved_methods w (caller_method, method_idx) of
        None \<Rightarrow> None
      | Some resolved \<Rightarrow> select_target rs type this_object caller_method access_check resolved)"

definition FindMethodFromCode ::
  "resolver \<Rightarrow> 32 word \<Rightarrow> object option \<Rightarrow> nat \<Rightarrow> bool \<Rightarrow> InvokeType \<Rightarrow> world
     \<Rightarrow> nat option \<times> world" where
  "FindMethodFromCode rs method_idx this_object caller_method access_check type w =
     (case ResolveMethod rs caller_method method_idx of
        None \<Rightarrow>
          (None,
           w\<lparr>self := SetException (method_failure rs caller_method method_idx) (self w)\<rparr>)
      | Some resolved \<Rightarrow>
          (case select_target rs type this_object caller_method access_check resolved of
             None \<Rightarrow>
               (None,
                w\<lparr>self := SetException (method_failure rs caller_method method_idx)
                             (self w)\<rparr>)
           | Some target \<Rightarrow>
               (Some target,
                w\<lparr>resolved_methods :=
                    (resolved_methods w)((caller_method, method_idx) \<mapsto> resolved)\<rparr>)))"

text \<open>Modelled from the spec: the accessors of \<open>Field\<close> are declared in object.h, which
  is not part of the file. The spec (4.4): "perform the typed read/write directly at
  the resolved offset (static fields address a fixed storage location; instance fields
  address an offset within the receiver object)". A location is the receiver (\<open>None\<close>
  for a static field) with the field.\<close>

definition Set32 :: "nat \<Rightarrow> object option \<Rightarrow> 32 word \<Rightarrow> world \<Rightarrow> world" where
  "Set32 field obj new_value w = w\<lparr>storage32 := (storage32 w)((obj, field) := new_value)\<rparr>"

definition Set64 :: "nat \<Rightarrow> object option \<Rightarrow> 64 word \<Rightarrow> world \<Rightarrow> world" where
  "Set64 field obj new_value w = w\<lparr>storage64 := (storage64 w)((obj, field) := new_value)\<rparr>"

definition SetObj :: "nat \<Rightarrow> object option \<Rightarrow> object option \<Rightarrow> world \<Rightarrow> world" where
  "SetObj field obj new_value w =
     w\<lparr>storage_obj := (storage_obj w)((obj, field) := new_value)\<rparr>"

definition Get32 :: "nat \<Rightarrow> object option \<Rightarrow> world \<Rightarrow> 32 word" where
  "Get32 field obj w = storage32 w (obj, field)"

definition Get64 :: "nat \<Rightarrow> object option \<Rightarrow> world \<Rightarrow> 64 word" where
  "Get64 field obj w = storage64 w (obj, field)"

definition GetObj :: "nat \<Rightarrow> object option \<Rightarrow> world \<Rightarrow> object option" where
  "GetObj field obj w = storage_obj w (obj, field)"

text \<open>The method resolver of the file. \<open>CHECK\<close> ends the process when its condition
  fails; \<open>DCHECK\<close> does so in a debug build only.\<close>

definition FindMethodHelper ::
  "runtime \<Rightarrow> resolver \<Rightarrow> 32 word \<Rightarrow> object option \<Rightarrow> nat \<Rightarrow> bool \<Rightarrow> InvokeType \<Rightarrow> world
     \<Rightarrow> fatal + (nat option \<times> world)" where
  "FindMethodHelper rt rs method_idx this_object caller_method access_check type w =
     (case FindMethodFast rs method_idx this_object caller_method access_check type w of
        Some method \<Rightarrow>
          if kIsDebugBuild rt \<and> IsExceptionPending (self w)
          then Inl (CheckFailed ''!Thread::Current()->IsExceptionPending()'')
          else Inr (Some method, w)
      | None \<Rightarrow>
          (case FindMethodFromCode rs method_idx this_object caller_method access_check
                  type w of
             (None, w1) \<Rightarrow>
               if \<not> IsExceptionPending (self w1)
               then Inl (CheckFailed ''Thread::Current()->IsExceptionPending()'')
               else Inr (None, w1)
           | (Some method, w1) \<Rightarrow>
               if kIsDebugBuild rt \<and> IsExceptionPending (self w1)
               then Inl (CheckFailed ''!Thread::Current()->IsExceptionPending()'')
               else Inr (Some method, w1)))"

definition art_find_interface_method_from_code ::
  "runtime \<Rightarrow> resolver \<Rightarrow> 32 word \<Rightarrow> object option \<Rightarrow> nat \<Rightarrow> world
     \<Rightarrow> fatal + (nat option \<times> world)" where
  "art_find_interface_method_from_code rt rs method_idx this_object referrer w =
     FindMethodHelper rt rs method_idx this_object referrer True kInterface w"

definition art_find_virtual_method_from_code ::
  "runtime \<Rightarrow> resolver \<Rightarrow> 32 word \<Rightarrow> object option \<Rightarrow> nat \<Rightarrow> world
     \<Rightarrow> fatal + (nat option \<times> world)" where
  "art_find_virtual_method_from_code rt rs method_idx this_object referrer w =
     FindMethodHelper rt rs method_idx this_object referrer True kVirtual w"

definition art_find_super_method_from_code ::
  "runtime \<Rightarrow> resolver \<Rightarrow> 32 word \<Rightarrow> object option \<Rightarrow> nat \<Rightarrow> world
     \<Rightarrow> fatal + (nat option \<times> world)" where
  "art_find_super_method_from_code rt rs method_idx this_object referrer w =
     FindMethodHelper rt rs method_idx this_object referrer True kSuper w"

text \<open>The field entry points of the file: \<open>sizeof(uint32_t)\<close> is 4, \<open>sizeof(uint64_t)\<close> is 8,
  \<open>sizeof(Object*)\<close> the pointer size of the target.\<close>

definition art_set32_static_from_code ::
  "resolver \<Rightarrow> 32 word \<Rightarrow> nat \<Rightarrow> 32 word \<Rightarrow> world \<Rightarrow> 32 word \<times> world" where
  "art_set32_static_from_code rs field_idx referrer new_value w =
     (case FindFieldFast rs field_idx referrer True True 4 w of
        Some field \<Rightarrow> (0, Set32 field None new_value w)
      | None \<Rightarrow>
          (case FindFieldFromCode rs field_idx referrer True True True 4 w of
             (Some field, w1) \<Rightarrow> (0, Set32 field None new_value w1)
           | (None, w1) \<Rightarrow> (- 1, w1)))"

definition art_set64_static_from_code ::
  "resolver \<Rightarrow> 32 word \<Rightarrow> nat \<Rightarrow> 64 word \<Rightarrow> world \<Rightarrow> 32 word \<times> world" where
  "art_set64_static_from_code rs field_idx referrer new_value w =
     (case FindFieldFast rs field_idx referrer True True 8 w of
        Some field \<Rightarrow> (0, Set64 field None new_value w)
      | None \<Rightarrow>
          (case FindFieldFromCode rs field_idx referrer True True True 8 w of
             (Some field, w1) \<Rightarrow> (0, Set64 field None new_value w1)
           | (None, w1) \<Rightarrow> (- 1, w1)))"

definition art_set_obj_static_from_code ::
  "resolver \<Rightarrow> 32 word \<Rightarrow> nat \<Rightarrow> object option \<Rightarrow> world \<Rightarrow> 32 word \<times> world" where
  "art_set_obj_static_from_code rs field_idx referrer new_value w =
     (case FindFieldFast rs field_idx referrer False True (sizeof_pointer rs) w of
        Some field \<Rightarrow> (0, SetObj field None new_value w)
      | None \<Rightarrow>
          (case FindFieldFromCode rs field_idx referrer True False True (sizeof_pointer rs) w of
             (Some field, w1) \<Rightarrow> (0, SetObj field None new_value w1)
           | (None, w1) \<Rightarrow> (- 1, w1)))"

definition art_get32_static_from_code ::
  "resolver \<Rightarrow> 32 word \<Rightarrow> nat \<Rightarrow> world \<Rightarrow> 32 word \<times> world" where
  "art_get32_static_from_code rs field_idx referrer w =
     (case FindFieldFast rs field_idx referrer True False 4 w of
        Some field \<Rightarrow> (Get32 field None w, w)
      | None \<Rightarrow>
          (case FindFieldFromCode rs field_idx referrer True True False 4 w of
             (Some field, w1) \<Rightarrow> (Get32 field None w1, w1)
           | (None, w1) \<Rightarrow> (0, w1)))"

definition art_get64_static_from_code ::
  "resolver \<Rightarrow> 32 word \<Rightarrow> nat \<Rightarrow> world \<Rightarrow> 64 word \<times> world" where
  "art_get64_static_from_code rs field_idx referrer w =
     (case FindFieldFast rs field_idx referrer True False 8 w of
        Some field \<Rightarrow> (Get64 field None w, w)
      | None \<Rightarrow>
          (case FindFieldFromCode rs field_idx referrer True True False 8 w of
             (Some field, w1) \<Rightarrow> (Get64 field None w1, w1)
           | (None, w1) \<Rightarrow> (0, w1)))"

definition art_get_obj_static_from_code ::
  "resolver \<Rightarrow> 32 word \<Rightarrow> nat \<Rightarrow> world \<Rightarrow> object option \<times> world" where
  "art_get_obj_static_from_code rs field_idx referrer w =
     (case FindFieldFast rs field_idx referrer False False (sizeof_pointer rs) w of
        Some field \<Rightarrow> (GetObj field None w, w)
      | None \<Rightarrow>
          (case FindFieldFromCode rs field_idx referrer True False False (sizeof_pointer rs) w of
             (Some field, w1) \<Rightarrow> (GetObj field None w1, w1)
           | (None, w1) \<Rightarrow> (None, w1)))"

definition art_set32_instance_from_code ::
  "resolver \<Rightarrow> 32 word \<Rightarrow> nat \<Rightarrow> object option \<Rightarrow> 32 word \<Rightarrow> world \<Rightarrow> 32 word \<times> world" where
  "art_set32_instance_from_code rs field_idx referrer obj new_value w =
     (case FindFieldFast rs field_idx referrer True True 4 w of
        Some field \<Rightarrow> (0, Set32 field obj new_value w)
      | None \<Rightarrow>
          (case FindFieldFromCode rs field_idx referrer False True True 4 w of
             (Some field, w1) \<Rightarrow> (0, Set32 field obj new_value w1)
           | (None, w1) \<Rightarrow> (- 1, w1)))"

definition art_set64_instance_from_code ::
  "resolver \<Rightarrow> 32 word \<Rightarrow> nat \<Rightarrow> object option \<Rightarrow> 64 word \<Rightarrow> world \<Rightarrow> 32 word \<times> world" where
  "art_set64_instance_from_code rs field_idx referrer obj new_value w =
     (case FindFieldFast rs field_idx referrer True True 8 w of
        Some field \<Rightarrow> (0, Set64 field obj new_value w)
      | None \<Rightarrow>
          (case FindFieldFromCode rs field_idx referrer False True True 8 w of
             (Some field, w1) \<Rightarrow> (0, Set64 field obj new_value w1)
           | (None, w1) \<Rightarrow> (- 1, w1)))"

definition art_set_obj_instance_from_code ::
  "resolver \<Rightarrow> 32 word \<Rightarrow> nat \<Rightarrow> object option \<Rightarrow> object option \<Rightarrow> world \<Rightarrow> 32 word \<times> world" where
  "art_set_obj_instance_from_code rs field_idx referrer obj new_value w =
     (case FindFieldFast rs field_idx referrer False True (sizeof_pointer rs) w of
        Some field \<Rightarrow> (0, SetObj field obj new_value w)
      | None \<Rightarrow>
          (case FindFieldFromCode rs field_idx referrer False False True (sizeof_pointer rs) w of
             (Some field, w1) \<Rightarrow> (0, SetObj field obj new_value w1)
           | (None, w1) \<Rightarrow> (- 1, w1)))"

definition art_get32_instance_from_code ::
  "resolver \<Rightarrow> 32 word \<Rightarrow> nat \<Rightarrow> object option \<Rightarrow> world \<Rightarrow> 32 word \<times> world" where
  "art_get32_instance_from_code rs field_idx referrer obj w =
     (case FindFieldFast rs field_idx referrer True False 4 w of
        Some field \<Rightarrow> (Get32 field obj w, w)
      | None \<Rightarrow>
          (case FindFieldFromCode rs field_idx referrer False True False 4 w of
             (Some field, w1) \<Rightarrow> (Get32 field obj w1, w1)
           | (None, w1) \<Rightarrow> (0, w1)))"

definition art_get64_instance_from_code ::
  "resolver \<Rightarrow> 32 word \<Rightarrow> nat \<Rightarrow> object option \<Rightarrow> world \<Rightarrow> 64 word \<times> world" where
  "art_get64_instance_from_code rs field_idx referrer obj w =
     (case FindFieldFast rs field_idx referrer True False 8 w of
        Some field \<Rightarrow> (Get64 field obj w, w)
      | None \<Rightarrow>
          (case FindFieldFromCode rs field_idx referrer False True False 8 w of
             (Some field, w1) \<Rightarrow> (Get64 field obj w1, w1)
           | (None, w1) \<Rightarrow> (0, w1)))"

definition art_get_obj_instance_from_code ::
  "resolver \<Rightarrow> 32 word \<Rightarrow> nat \<Rightarrow> object option \<Rightarrow> world \<Rightarrow> object option \<times> world" where
  "art_get_obj_instance_from_code rs field_idx referrer obj w =
     (case FindFieldFast rs field_idx referrer False False (sizeof_pointer rs) w of
        Some field \<Rightarrow> (GetObj field obj w, w)
      | None \<Rightarrow>
          (case FindFieldFromCode rs field_idx referrer False False False (sizeof_pointer rs) w of
             (Some field, w1) \<Rightarrow> (GetObj field obj w1, w1)
           | (None, w1) \<Rightarrow> (None, w1)))"

subsection \<open>The resolution claims, stated\<close>

text \<open>What the claim on status encoding says of a write entry point, given what its
  fast path and its slow path return in the state \<open>w\<close>: the status is 0 and the store
  is performed on the field either path resolved; when both fail the status is not 0,
  and an exception is pending in the state the slow path left.\<close>

definition write_contract ::
  "nat option \<Rightarrow> nat option \<times> world \<Rightarrow> (nat \<Rightarrow> world \<Rightarrow> world) \<Rightarrow> world
     \<Rightarrow> 32 word \<times> world \<Rightarrow> bool" where
  "write_contract fast slow store w res =
     (case fast of
        Some field \<Rightarrow> res = (0, store field w)
      | None \<Rightarrow>
          (case slow of
             (Some field, w1) \<Rightarrow> res = (0, store field w1)
           | (None, w1) \<Rightarrow>
               fst res \<noteq> 0 \<and> snd res = w1 \<and> IsExceptionPending (self w1)))"

text \<open>The same for a read entry point: the value read on success, the sentinel and a
  pending exception on failure.\<close>

definition read_contract ::
  "nat option \<Rightarrow> nat option \<times> world \<Rightarrow> (nat \<Rightarrow> world \<Rightarrow> 'v) \<Rightarrow> 'v \<Rightarrow> world
     \<Rightarrow> 'v \<times> world \<Rightarrow> bool" where
  "read_contract fast slow load sentinel w res =
     (case fast of
        Some field \<Rightarrow> res = (load field w, w)
      | None \<Rightarrow>
          (case slow of
             (Some field, w1) \<Rightarrow> res = (load field w1, w1)
           | (None, w1) \<Rightarrow> res = (sentinel, w1) \<and> IsExceptionPending (self w1)))"

text \<open>The invariant of the spec's data model ("resolution results are cached"): the
  cache of a caller holds, for an index, only what full resolution yields for it.\<close>

definition cache_consistent :: "resolver \<Rightarrow> world \<Rightarrow> bool" where
  "cache_consistent rs w =
     ((\<forall>referrer idx field.
         resolved_fields w (referrer, idx) = Some field \<longrightarrow>
           ResolveField rs referrer idx = Some field) \<and>
      (\<forall>caller idx resolved.
         resolved_methods w (caller, idx) = Some resolved \<longrightarrow>
           ResolveMethod rs caller idx = Some resolved))"

subsection \<open>Concrete inputs\<close>

text \<open>A small runtime, method, thread and state on which the theorems below are
  instantiated.\<close>

definition example_runtime :: runtime where
  "example_runtime =
     \<lparr>proper_supertype =
        (\<lambda>dest src. dest = ''Ljava/lang/Exception;'' \<and> src = ''Ljava/io/IOException;''),
      PrettyDescriptor = (\<lambda>c. c),
      GetComponentType =
        (\<lambda>c. case c of [] \<Rightarrow> None | x # xs \<Rightarrow> if x = CHR ''['' then Some xs else None),
      IsMethodTracingActive = False,
      GetDefaultStackSize = 1048576,
      kDexNoIndex16 = 0xFFFF,
      kIsDebugBuild = True,
      KB = 1024\<rparr>"

definition example_method :: Method where
  "example_method =
     \<lparr>GetCodeItem =
        [\<lparr>start_addr = 0, end_addr = 10, handler_type_idx = 3, handler_addr = 40\<rparr>,
         \<lparr>start_addr = 0, end_addr = 10, handler_type_idx = 4, handler_addr = 44\<rparr>,
         \<lparr>start_addr = 20, end_addr = 30, handler_type_idx = 0xFFFF, handler_addr = 48\<rparr>,
         \<lparr>start_addr = 0, end_addr = 10, handler_type_idx = 5, handler_addr = 52\<rparr>,
         \<lparr>start_addr = 0, end_addr = 10, handler_type_idx = 0xFFFF, handler_addr = 56\<rparr>],
      GetDexCacheResolvedType =
        (\<lambda>i. if i = 4 then Some ''Ljava/lang/ArithmeticException;''
             else if i = 5 then Some ''Ljava/lang/Exception;'' else None),
      GetTypeDescriptorFromTypeIdx = (\<lambda>i. if i = 3 then ''Lfoo/Missing;'' else ''?'')\<rparr>"

definition string_object :: object where
  "string_object = \<lparr>obj_class = ''Ljava/lang/String;'', detail_message = None\<rparr>"

definition io_exception :: object where
  "io_exception = \<lparr>obj_class = ''Ljava/io/IOException;'', detail_message = Some ''disk''\<rparr>"

definition example_thread :: thread where
  "example_thread =
     \<lparr>GetException = None, stack_begin = 4096, stack_end = 20480,
      default_stack_end = 20480, stack_size = 1048576,
      jni_references = (\<lambda>h. if h = 7 then Some string_object else None),
      calls = []\<rparr>"

definition example_world :: world where
  "example_world =
     \<lparr>self = example_thread, log_warnings = [],
      resolved_fields = (\<lambda>k. None), resolved_methods = (\<lambda>k. None),
      storage32 = (\<lambda>l. 0), storage64 = (\<lambda>l. 0), storage_obj = (\<lambda>l. None)\<rparr>"

definition integer_object :: object where
  "integer_object = \<lparr>obj_class = ''Ljava/lang/Integer;'', detail_message = None\<rparr>"

definition string_array :: object where
  "string_array = \<lparr>obj_class = ''[Ljava/lang/String;'', detail_message = None\<rparr>"

text \<open>Two small tables of function names and addresses.\<close>

definition example_compiler_runtime_func_list :: "(string \<times> nat) list" where
  "example_compiler_runtime_func_list =
     [(''__adddf3'', 4096), (''__divdi3'', 4100), (''__moddi3'', 4104)]"

definition example_runtime_support_func_list :: "(string \<times> nat) list" where
  "example_runtime_support_func_list =
     [(''art_test_suspend_from_code'', 8192), (''art_throw_div_zero_from_code'', 8196)]"

text \<open>A resolver that knows the field index 1 and the method index 3, and a state
  whose caches hold both.\<close>

definition example_resolver :: resolver where
  "example_resolver =
     \<lparr>ResolveField = (\<lambda>referrer idx. if idx = 1 then Some 100 else None),
      fast_path_admits =
        (\<lambda>referrer field is_primitive is_set expected_size.
           is_primitive \<and> expected_size = 4),
      slow_path_admits =
        (\<lambda>referrer field is_static is_primitive is_set expected_size.
           is_static \<and> is_primitive \<and> expected_size = 4),
      field_failure =
        (\<lambda>referrer idx. \<lparr>obj_class = ''Ljava/lang/NoSuchFieldError;'',
                          detail_message = None\<rparr>),
      ResolveMethod = (\<lambda>caller idx. if idx = 3 then Some 300 else None),
      select_target =
        (\<lambda>type this_object caller access_check resolved.
           case this_object of None \<Rightarrow> None | Some receiver \<Rightarrow> Some resolved),
      method_failure =
        (\<lambda>caller idx. \<lparr>obj_class = ''Ljava/lang/NoSuchMethodError;'',
                        detail_message = None\<rparr>),
      sizeof_pointer = 4\<rparr>"

definition cached_world :: world where
  "cached_world =
     example_world\<lparr>resolved_fields := (\<lambda>k. if k = (0, 1) then Some 100 else None),
                   resolved_methods := (\<lambda>k. if k = (0, 3) then Some 300 else None)\<rparr>"

text \<open>The same state with an exception pending.\<close>

definition throwing_world :: world where
  "throwing_world = example_world\<lparr>self := example_thread\<lparr>GetException := Some io_exception\<rparr>\<rparr>"

section \<open>Properties\<close>

subsection \<open>Catch-block search\<close>

lemma find_catch_loop_takeWhile:
  "find_catch_loop rt mh et hs i lg =
     ((if \<exists>h \<in> set hs. handler_applies rt mh et h
       then i + of_nat (length (takeWhile (\<lambda>h. \<not> handler_applies rt mh et h) hs))
       else - 1),
      lg @ map (unresolved_warning mh)
             (filter (\<lambda>h. GetDexCacheResolvedType mh h = None)
                (takeWhile (\<lambda>h. \<not> handler_applies rt mh et h) hs)))"
proof (induction hs arbitrary: i lg)
  case Nil
  show ?case by simp
next
  case (Cons h hs)
  show ?case
  proof (cases "h = kDexNoIndex16 rt")
    case True
    then show ?thesis by (simp add: handler_applies_def)
  next
    case False
    show ?thesis
    proof (cases "GetDexCacheResolvedType mh h")
      case None
      with False have na: "\<not> handler_applies rt mh et h"
        by (simp add: handler_applies_def)
      show ?thesis
        using False None na by (simp add: Cons.IH add.assoc)
    next
      case (Some t)
      show ?thesis
      proof (cases "IsAssignableFrom rt t et")
        case True
        with Some have "handler_applies rt mh et h"
          by (simp add: handler_applies_def)
        then show ?thesis
          using False Some True by simp
      next
        case no: False
        with False Some have na: "\<not> handler_applies rt mh et h"
          by (simp add: handler_applies_def)
        show ?thesis
          using False Some no na by (simp add: Cons.IH add.assoc)
      qed
    qed
  qed
qed

lemma sint_of_nat_32:
  "n < 2 ^ 31 \<Longrightarrow> sint (of_nat n :: 32 word) = int n"
  by (simp add: signed_of_nat signed_take_bit_int_eq_self)

lemma first_applicable_index:
  fixes P :: "'a \<Rightarrow> bool"
  assumes ex: "\<exists>h \<in> set hs. P h"
  defines "k \<equiv> length (takeWhile (\<lambda>h. \<not> P h) hs)"
  shows "k < length hs" and "P (hs ! k)" and "\<forall>j < k. \<not> P (hs ! j)"
    and "takeWhile (\<lambda>h. \<not> P h) hs = take k hs"
proof -
  show lt: "k < length hs"
  proof -
    have "takeWhile (\<lambda>h. \<not> P h) hs \<noteq> hs"
      using ex by (simp add: takeWhile_eq_all_conv)
    moreover have "length (takeWhile (\<lambda>h. \<not> P h) hs) \<le> length hs"
      by (rule length_takeWhile_le)
    ultimately show ?thesis
      unfolding k_def using takeWhile_eq_take [of "\<lambda>h. \<not> P h" hs]
      by (cases "length (takeWhile (\<lambda>h. \<not> P h) hs) = length hs") auto
  qed
  show "P (hs ! k)"
    using nth_length_takeWhile [of "\<lambda>h. \<not> P h" hs] lt unfolding k_def by simp
  show "\<forall>j < k. \<not> P (hs ! j)"
  proof (intro allI impI)
    fix j assume "j < k"
    then have "takeWhile (\<lambda>h. \<not> P h) hs ! j \<in> set (takeWhile (\<lambda>h. \<not> P h) hs)"
      unfolding k_def by simp
    then have "\<not> P (takeWhile (\<lambda>h. \<not> P h) hs ! j)"
      by (blast dest: set_takeWhileD)
    then show "\<not> P (hs ! j)"
      using \<open>j < k\<close> unfolding k_def by (simp add: takeWhile_nth)
  qed
  show "takeWhile (\<lambda>h. \<not> P h) hs = take k hs"
    unfolding k_def by (rule takeWhile_eq_take)
qed

text \<open>Claim C1. With an exception pending, \<open>art_find_catch_block_from_code\<close> returns:
  \<open>-1\<close> exactly when no entry the iterator yields for the location applies to the type
  of the pending exception (an entry applies when its handler type is the catch-all
  sentinel, or its declared type is resolved and assignable-from that type); otherwise
  the zero-based position, among the entries for the location and in table order, of
  the first entry that applies. The thread is left as it was, and one warning is
  logged for each entry with an unresolved type that the scan passed, in order: such an
  entry does not apply and the scan goes on after it. The counter is a C \<open>int\<close>, so the
  entries for one location are taken to be fewer than \<open>2^31\<close>.\<close>

theorem find_catch_block_first_applicable:
  assumes pending: "GetException (self w) = Some exc"
    and small: "length (CatchHandlerIterator (GetCodeItem m) dex_pc) < 2 ^ 31"
  shows "let hs = CatchHandlerIterator (GetCodeItem m) dex_pc;
             applies = handler_applies rt m (obj_class exc)
         in \<exists>r w'. art_find_catch_block_from_code rt m dex_pc w = Inr (r, w') \<and>
              (sint r = - 1 \<longleftrightarrow> (\<forall>h \<in> set hs. \<not> applies h)) \<and>
              (sint r \<noteq> - 1 \<longrightarrow>
                 0 \<le> sint r \<and> nat (sint r) < length hs \<and> applies (hs ! nat (sint r)) \<and>
                 (\<forall>j < nat (sint r). \<not> applies (hs ! j))) \<and>
              w' = w\<lparr>log_warnings := log_warnings w @
                     map (unresolved_warning m)
                       (filter (\<lambda>h. GetDexCacheResolvedType m h = None)
                          (take (if sint r = - 1 then length hs else nat (sint r)) hs))\<rparr>"
proof -
  define hs where "hs = CatchHandlerIterator (GetCodeItem m) dex_pc"
  define P where "P = handler_applies rt m (obj_class exc)"
  define k where "k = length (takeWhile (\<lambda>h. \<not> P h) hs)"
  define r :: "32 word" where "r = (if \<exists>h \<in> set hs. P h then of_nat k else - 1)"
  have run: "art_find_catch_block_from_code rt m dex_pc w =
      Inr (r, w\<lparr>log_warnings := log_warnings w @ map (unresolved_warning m)
             (filter (\<lambda>h. GetDexCacheResolvedType m h = None)
                (takeWhile (\<lambda>h. \<not> P h) hs))\<rparr>)"
    using pending
    by (simp add: art_find_catch_block_from_code_def find_catch_loop_takeWhile
        hs_def P_def k_def r_def Let_def)
  have klen: "k \<le> length hs"
    unfolding k_def by (rule length_takeWhile_le)
  with small have kk: "k < 2 ^ 31"
    unfolding hs_def by simp
  have sk: "sint (of_nat k :: 32 word) = int k"
    using kk by (rule sint_of_nat_32)
  show ?thesis
  proof (cases "\<exists>h \<in> set hs. P h")
    case True
    note fa = first_applicable_index [OF True, folded k_def]
    have rr: "sint r = int k"
      using True sk by (simp add: r_def)
    show ?thesis
      unfolding Let_def hs_def [symmetric] P_def [symmetric]
      using run True rr fa by auto
  next
    case False
    then have all: "takeWhile (\<lambda>h. \<not> P h) hs = hs"
      by (simp add: takeWhile_eq_all_conv)
    have rr: "sint r = - 1"
      using False by (simp add: r_def)
    show ?thesis
      unfolding Let_def hs_def [symmetric] P_def [symmetric]
      using run False rr all by auto
  qed
qed

theorem find_catch_block_first_applicable_witness:
  "GetException (self throwing_world) = Some io_exception \<and>
   length (CatchHandlerIterator (GetCodeItem example_method) 5) < 2 ^ 31 \<and>
   art_find_catch_block_from_code example_runtime example_method 5 throwing_world =
     Inr (2, throwing_world\<lparr>log_warnings :=
               [''Unresolved exception class when finding catch block: Lfoo/Missing;'']\<rparr>)"
proof -
  have p: "GetException (self throwing_world) = Some io_exception"
    by (simp add: throwing_world_def)
  have it: "CatchHandlerIterator (GetCodeItem example_method) 5 = [3, 4, 5, 0xFFFF]"
    by (simp add: CatchHandlerIterator_def example_method_def)
  have s: "length (CatchHandlerIterator (GetCodeItem example_method) 5) < 2 ^ 31"
    by (simp add: it)
  from find_catch_block_first_applicable [OF p s, of example_runtime]
  obtain r w' where
    run: "art_find_catch_block_from_code example_runtime example_method 5 throwing_world =
            Inr (r, w')"
    and minus: "(sint r = - 1) =
      (\<forall>h \<in> set (CatchHandlerIterator (GetCodeItem example_method) 5).
          \<not> handler_applies example_runtime example_method (obj_class io_exception) h)"
    unfolding Let_def by blast
  have loop: "find_catch_loop example_runtime example_method ''Ljava/io/IOException;''
      [3, 4, 5, 0xFFFF] 0 [] =
      (2, [''Unresolved exception class when finding catch block: Lfoo/Missing;''])"
    by (simp add: example_runtime_def example_method_def IsAssignableFrom_def
        unresolved_warning_def)
  have cls: "obj_class io_exception = ''Ljava/io/IOException;''"
    by (simp add: io_exception_def)
  have lg: "log_warnings throwing_world = []"
    by (simp add: throwing_world_def example_world_def)
  have "art_find_catch_block_from_code example_runtime example_method 5 throwing_world =
     Inr (2, throwing_world\<lparr>log_warnings :=
               [''Unresolved exception class when finding catch block: Lfoo/Missing;'']\<rparr>)"
    by (simp only: art_find_catch_block_from_code_def p it cls lg loop Let_def
        option.case prod.case)
  with p s run show ?thesis by simp
qed

subsection \<open>Type checks\<close>

text \<open>Claim C5. For types \<open>dest\<close> and \<open>src\<close>, \<open>art_is_assignable_from_code\<close> returns 1
  when \<open>dest\<close> is assignable-from \<open>src\<close> and 0 otherwise, and returns 1 when the two are
  the same type; the state it returns is the state it was given, so no exception is
  installed.\<close>

theorem assignable_query_encoding:
  "art_is_assignable_from_code rt (Some dest) (Some src) w =
     Inr (if IsAssignableFrom rt dest src then 1 else 0, w) \<and>
   art_is_assignable_from_code rt (Some dest) (Some dest) w = Inr (1, w)"
  by (simp add: art_is_assignable_from_code_def IsAssignableFrom_def)

text \<open>Claim C6. \<open>art_check_cast_from_code\<close> leaves the state as it is when \<open>dest\<close> is
  assignable-from \<open>src\<close>; otherwise it installs a pending \<open>ClassCastException\<close> whose
  message holds the names of both types. It leaves the state unchanged exactly when
  the assignability query answers 1 for the same pair.\<close>

theorem check_cast_raises_iff_not_assignable:
  "(IsAssignableFrom rt dest src \<longrightarrow>
      art_check_cast_from_code rt (Some dest) (Some src) w = Inr w) \<and>
   (\<not> IsAssignableFrom rt dest src \<longrightarrow>
      (\<exists>msg. art_check_cast_from_code rt (Some dest) (Some src) w =
                Inr (w\<lparr>self := ThrowNewException ''Ljava/lang/ClassCastException;''
                                  (Some msg) (self w)\<rparr>) \<and>
             sublist (PrettyDescriptor rt dest) msg \<and>
             sublist (PrettyDescriptor rt src) msg \<and>
             GetException (self (w\<lparr>self := ThrowNewException
                 ''Ljava/lang/ClassCastException;'' (Some msg) (self w)\<rparr>)) =
               Some \<lparr>obj_class = ''Ljava/lang/ClassCastException;'',
                     detail_message = Some msg\<rparr>)) \<and>
   (art_check_cast_from_code rt (Some dest) (Some src) w = Inr w \<longleftrightarrow>
      art_is_assignable_from_code rt (Some dest) (Some src) w = Inr (1, w))"
proof (intro conjI impI)
  assume "IsAssignableFrom rt dest src"
  then show "art_check_cast_from_code rt (Some dest) (Some src) w = Inr w"
    by (simp add: art_check_cast_from_code_def)
next
  assume no: "\<not> IsAssignableFrom rt dest src"
  let ?msg = "PrettyDescriptor rt dest @ '' cannot be cast to '' @ PrettyDescriptor rt src"
  have "art_check_cast_from_code rt (Some dest) (Some src) w =
      Inr (w\<lparr>self := ThrowNewException ''Ljava/lang/ClassCastException;''
                        (Some ?msg) (self w)\<rparr>)"
    using no by (simp add: art_check_cast_from_code_def ThrowNewExceptionF_def)
  moreover have "sublist (PrettyDescriptor rt dest) ?msg"
    by (rule sublist_append_rightI)
  moreover have "sublist (PrettyDescriptor rt src) ?msg"
    using sublist_append_leftI [of "PrettyDescriptor rt src"
        "PrettyDescriptor rt dest @ '' cannot be cast to ''"] by simp
  moreover have "GetException (self (w\<lparr>self := ThrowNewException
      ''Ljava/lang/ClassCastException;'' (Some ?msg) (self w)\<rparr>)) =
      Some \<lparr>obj_class = ''Ljava/lang/ClassCastException;'', detail_message = Some ?msg\<rparr>"
    by (simp add: ThrowNewException_def)
  ultimately show "\<exists>msg. art_check_cast_from_code rt (Some dest) (Some src) w =
                Inr (w\<lparr>self := ThrowNewException ''Ljava/lang/ClassCastException;''
                                  (Some msg) (self w)\<rparr>) \<and>
             sublist (PrettyDescriptor rt dest) msg \<and>
             sublist (PrettyDescriptor rt src) msg \<and>
             GetException (self (w\<lparr>self := ThrowNewException
                 ''Ljava/lang/ClassCastException;'' (Some msg) (self w)\<rparr>)) =
               Some \<lparr>obj_class = ''Ljava/lang/ClassCastException;'',
                     detail_message = Some msg\<rparr>"
    by blast
next
  have changed: "w\<lparr>self := ThrowNewExceptionF c m (self w)\<rparr> \<noteq> w" for c m
  proof
    assume "w\<lparr>self := ThrowNewExceptionF c m (self w)\<rparr> = w"
    then have "self (w\<lparr>self := ThrowNewExceptionF c m (self w)\<rparr>) = self w"
      by simp
    then have "calls (ThrowNewExceptionF c m (self w)) = calls (self w)"
      by simp
    then show False
      by (simp add: ThrowNewExceptionF_def ThrowNewException_def)
  qed
  show "art_check_cast_from_code rt (Some dest) (Some src) w = Inr w \<longleftrightarrow>
      art_is_assignable_from_code rt (Some dest) (Some src) w = Inr (1, w)"
    using changed
    by (simp add: art_check_cast_from_code_def art_is_assignable_from_code_def)
qed

theorem check_cast_raises_iff_not_assignable_witness:
  "IsAssignableFrom example_runtime ''Ljava/lang/Exception;'' ''Ljava/io/IOException;'' \<and>
   art_check_cast_from_code example_runtime (Some ''Ljava/lang/Exception;'')
       (Some ''Ljava/io/IOException;'') example_world = Inr example_world \<and>
   \<not> IsAssignableFrom example_runtime ''Ljava/lang/String;'' ''Ljava/lang/Integer;'' \<and>
   art_check_cast_from_code example_runtime (Some ''Ljava/lang/String;'')
       (Some ''Ljava/lang/Integer;'') example_world =
     Inr (example_world\<lparr>self := ThrowNewException ''Ljava/lang/ClassCastException;''
            (Some ''Ljava/lang/String; cannot be cast to Ljava/lang/Integer;'')
            (self example_world)\<rparr>) \<and>
   art_is_assignable_from_code example_runtime (Some ''Ljava/lang/String;'')
       (Some ''Ljava/lang/Integer;'') example_world = Inr (0, example_world)"
proof -
  have yes: "IsAssignableFrom example_runtime ''Ljava/lang/Exception;''
      ''Ljava/io/IOException;''"
    by (simp add: IsAssignableFrom_def example_runtime_def)
  have no: "\<not> IsAssignableFrom example_runtime ''Ljava/lang/String;''
      ''Ljava/lang/Integer;''"
    by (simp add: IsAssignableFrom_def example_runtime_def)
  have pd: "PrettyDescriptor example_runtime = (\<lambda>c. c)"
    by (simp add: example_runtime_def)
  note a = check_cast_raises_iff_not_assignable
      [of example_runtime "''Ljava/lang/Exception;''" "''Ljava/io/IOException;''"
        example_world]
  note b = check_cast_raises_iff_not_assignable
      [of example_runtime "''Ljava/lang/String;''" "''Ljava/lang/Integer;''"
        example_world]
  have thrown: "art_check_cast_from_code example_runtime (Some ''Ljava/lang/String;'')
       (Some ''Ljava/lang/Integer;'') example_world =
     Inr (example_world\<lparr>self := ThrowNewException ''Ljava/lang/ClassCastException;''
            (Some ''Ljava/lang/String; cannot be cast to Ljava/lang/Integer;'')
            (self example_world)\<rparr>)"
    using no by (simp add: art_check_cast_from_code_def ThrowNewExceptionF_def pd)
  have q: "art_is_assignable_from_code example_runtime (Some ''Ljava/lang/String;'')
       (Some ''Ljava/lang/Integer;'') example_world = Inr (0, example_world)"
    using no by (simp add: art_is_assignable_from_code_def)
  from a yes have "art_check_cast_from_code example_runtime (Some ''Ljava/lang/Exception;'')
       (Some ''Ljava/io/IOException;'') example_world = Inr example_world"
    by blast
  with yes no thrown q b show ?thesis
    by blast
qed

lemma pending_after_throw:
  "GetException (ThrowNewException c m t) = Some \<lparr>obj_class = c, detail_message = m\<rparr>"
  by (simp add: ThrowNewException_def)

lemma world_changed_by_throw:
  "w\<lparr>self := ThrowNewException c m (self w)\<rparr> \<noteq> w"
proof
  assume "w\<lparr>self := ThrowNewException c m (self w)\<rparr> = w"
  then have "self (w\<lparr>self := ThrowNewException c m (self w)\<rparr>) = self w"
    by simp
  then have "calls (ThrowNewException c m (self w)) = calls (self w)"
    by simp
  then show False
    by (simp add: ThrowNewException_def)
qed

text \<open>Claim C7. \<open>art_check_put_array_element_from_code\<close> returns at once, leaving the
  state as it is, when the element is null. For an element and an array whose class
  has a component type, it leaves the state as it is when the component type is
  assignable-from the element's class, and otherwise installs a pending
  \<open>ArrayStoreException\<close>.\<close>

theorem array_store_check:
  "art_check_put_array_element_from_code rt None array w = Inr w \<and>
   (GetComponentType rt (obj_class arr) = Some component_type \<longrightarrow>
      (IsAssignableFrom rt component_type (obj_class el) \<longrightarrow>
         art_check_put_array_element_from_code rt (Some el) (Some arr) w = Inr w) \<and>
      (\<not> IsAssignableFrom rt component_type (obj_class el) \<longrightarrow>
         (let msg = PrettyDescriptor rt (obj_class el)
                      @ '' cannot be stored in an array of type ''
                      @ PrettyDescriptor rt (obj_class arr);
              w' = w\<lparr>self := ThrowNewException ''Ljava/lang/ArrayStoreException;''
                              (Some msg) (self w)\<rparr>
          in art_check_put_array_element_from_code rt (Some el) (Some arr) w = Inr w' \<and>
             GetException (self w') =
               Some \<lparr>obj_class = ''Ljava/lang/ArrayStoreException;'',
                     detail_message = Some msg\<rparr> \<and>
             w' \<noteq> w)))"
proof (intro conjI impI)
  show "art_check_put_array_element_from_code rt None array w = Inr w"
    by (simp add: art_check_put_array_element_from_code_def)
next
  assume "GetComponentType rt (obj_class arr) = Some component_type"
    and "IsAssignableFrom rt component_type (obj_class el)"
  then show "art_check_put_array_element_from_code rt (Some el) (Some arr) w = Inr w"
    by (simp add: art_check_put_array_element_from_code_def Let_def)
next
  assume ct: "GetComponentType rt (obj_class arr) = Some component_type"
    and no: "\<not> IsAssignableFrom rt component_type (obj_class el)"
  define msg where "msg = PrettyDescriptor rt (obj_class el)
      @ '' cannot be stored in an array of type '' @ PrettyDescriptor rt (obj_class arr)"
  have run: "art_check_put_array_element_from_code rt (Some el) (Some arr) w =
      Inr (w\<lparr>self := ThrowNewException ''Ljava/lang/ArrayStoreException;''
                        (Some msg) (self w)\<rparr>)"
    using ct no
    by (simp add: art_check_put_array_element_from_code_def Let_def
        ThrowNewExceptionF_def msg_def)
  show "let msg = PrettyDescriptor rt (obj_class el)
                      @ '' cannot be stored in an array of type ''
                      @ PrettyDescriptor rt (obj_class arr);
              w' = w\<lparr>self := ThrowNewException ''Ljava/lang/ArrayStoreException;''
                              (Some msg) (self w)\<rparr>
          in art_check_put_array_element_from_code rt (Some el) (Some arr) w = Inr w' \<and>
             GetException (self w') =
               Some \<lparr>obj_class = ''Ljava/lang/ArrayStoreException;'',
                     detail_message = Some msg\<rparr> \<and>
             w' \<noteq> w"
    unfolding Let_def msg_def [symmetric]
    using run world_changed_by_throw [where w = w] by (simp add: pending_after_throw)
qed

theorem array_store_check_witness:
  "GetComponentType example_runtime (obj_class string_array) = Some ''Ljava/lang/String;'' \<and>
   IsAssignableFrom example_runtime ''Ljava/lang/String;'' (obj_class string_object) \<and>
   art_check_put_array_element_from_code example_runtime (Some string_object)
       (Some string_array) example_world = Inr example_world \<and>
   \<not> IsAssignableFrom example_runtime ''Ljava/lang/String;'' (obj_class integer_object) \<and>
   art_check_put_array_element_from_code example_runtime (Some integer_object)
       (Some string_array) example_world =
     Inr (example_world\<lparr>self := ThrowNewException ''Ljava/lang/ArrayStoreException;''
       (Some ''Ljava/lang/Integer; cannot be stored in an array of type [Ljava/lang/String;'')
       (self example_world)\<rparr>) \<and>
   art_check_put_array_element_from_code example_runtime None None throwing_world =
     Inr throwing_world"
proof -
  have ct: "GetComponentType example_runtime (obj_class string_array) =
      Some ''Ljava/lang/String;''"
    by (simp add: example_runtime_def string_array_def)
  have yes: "IsAssignableFrom example_runtime ''Ljava/lang/String;'' (obj_class string_object)"
    by (simp add: IsAssignableFrom_def string_object_def)
  have no: "\<not> IsAssignableFrom example_runtime ''Ljava/lang/String;''
      (obj_class integer_object)"
    by (simp add: IsAssignableFrom_def example_runtime_def integer_object_def)
  have pd: "PrettyDescriptor example_runtime = (\<lambda>c. c)"
    by (simp add: example_runtime_def)
  note a = array_store_check [of example_runtime None example_world string_array
      "''Ljava/lang/String;''" string_object]
  note b = array_store_check [of example_runtime None throwing_world string_array
      "''Ljava/lang/String;''" integer_object]
  note c = array_store_check [of example_runtime None example_world string_array
      "''Ljava/lang/String;''" integer_object]
  have 1: "art_check_put_array_element_from_code example_runtime (Some string_object)
       (Some string_array) example_world = Inr example_world"
    using a ct yes by blast
  have 2: "art_check_put_array_element_from_code example_runtime None None throwing_world =
     Inr throwing_world"
    using b by blast
  have 3: "art_check_put_array_element_from_code example_runtime (Some integer_object)
       (Some string_array) example_world =
     Inr (example_world\<lparr>self := ThrowNewException ''Ljava/lang/ArrayStoreException;''
       (Some ''Ljava/lang/Integer; cannot be stored in an array of type [Ljava/lang/String;'')
       (self example_world)\<rparr>)"
    using c ct no
    by (simp add: Let_def pd integer_object_def string_array_def)
  from ct yes no 1 2 3 show ?thesis
    by blast
qed

subsection \<open>Throw operations\<close>

text \<open>Claim C8. \<open>art_throw_stack_overflow_from_code\<close> first moves the soft stack limit
  onto the hard limit, then constructs and installs the \<open>StackOverflowError\<close> on the
  widened thread, then resets the soft limit: the three calls are made in this order
  whatever was pending before and whether or not method tracing is active. Afterwards
  the stack end is its default value (the value it had before, when it was the default
  on entry) and a \<open>StackOverflowError\<close> is pending.\<close>

theorem stack_overflow_widens_throws_restores:
  "let t0 = (if IsMethodTracingActive rt then TraceMethodUnwindFromCode (self w) else self w);
       widened = SetStackEndForStackOverflow t0;
       msg = ''stack size '' @ decimal (stack_size (self w) div KB rt)
               @ ''kb; default stack size: '' @ decimal (GetDefaultStackSize rt div KB rt)
               @ ''kb'';
       w' = art_throw_stack_overflow_from_code rt w
   in stack_end widened = stack_begin (self w) \<and>
      w' = w\<lparr>self := ResetDefaultStackEnd
                (ThrowNewException ''Ljava/lang/StackOverflowError;'' (Some msg) widened)\<rparr> \<and>
      calls (self w') =
        calls t0 @ [Call_SetStackEndForStackOverflow,
                    Call_ThrowNewException ''Ljava/lang/StackOverflowError;'' (Some msg),
                    Call_ResetDefaultStackEnd] \<and>
      stack_end (self w') = default_stack_end (self w) \<and>
      GetException (self w') =
        Some \<lparr>obj_class = ''Ljava/lang/StackOverflowError;'', detail_message = Some msg\<rparr> \<and>
      (stack_end (self w) = default_stack_end (self w) \<longrightarrow>
         stack_end (self w') = stack_end (self w))"
  by (simp add: art_throw_stack_overflow_from_code_def Let_def ThrowNewExceptionF_def
      ThrowNewException_def SetStackEndForStackOverflow_def ResetDefaultStackEnd_def
      TraceMethodUnwindFromCode_def GetStackSize_def)

theorem stack_overflow_widens_throws_restores_witness:
  "stack_end (self throwing_world) = default_stack_end (self throwing_world) \<and>
   art_throw_stack_overflow_from_code example_runtime throwing_world =
     throwing_world\<lparr>self := example_thread
       \<lparr>GetException := Some \<lparr>obj_class = ''Ljava/lang/StackOverflowError;'',
           detail_message = Some ''stack size 1024kb; default stack size: 1024kb''\<rparr>,
        calls := [Call_SetStackEndForStackOverflow,
                  Call_ThrowNewException ''Ljava/lang/StackOverflowError;''
                    (Some ''stack size 1024kb; default stack size: 1024kb''),
                  Call_ResetDefaultStackEnd]\<rparr>\<rparr> \<and>
   stack_end (self (art_throw_stack_overflow_from_code example_runtime throwing_world)) =
     20480"
proof -
  have d: "decimal (1048576 div KB example_runtime) = ''1024''"
    by (simp add: example_runtime_def decimal.simps)
  have h: "stack_end (self throwing_world) = default_stack_end (self throwing_world)"
    by (simp add: throwing_world_def example_thread_def)
  have sz: "stack_size (self throwing_world) = 1048576"
      "GetDefaultStackSize example_runtime = 1048576"
      "\<not> IsMethodTracingActive example_runtime"
    by (simp_all add: throwing_world_def example_thread_def example_runtime_def)
  from stack_overflow_widens_throws_restores [of example_runtime throwing_world]
  have eq: "art_throw_stack_overflow_from_code example_runtime throwing_world =
      throwing_world\<lparr>self := ResetDefaultStackEnd
        (ThrowNewException ''Ljava/lang/StackOverflowError;''
           (Some ''stack size 1024kb; default stack size: 1024kb'')
           (SetStackEndForStackOverflow (self throwing_world)))\<rparr>"
    by (simp add: Let_def sz d)
  show ?thesis
    unfolding eq using h
    by (simp add: throwing_world_def example_thread_def example_world_def
        ThrowNewException_def SetStackEndForStackOverflow_def ResetDefaultStackEnd_def)
qed

text \<open>Claim C9. \<open>art_throw_exception_from_code\<close> with a null argument installs a new
  \<open>NullPointerException\<close> in the pending-exception slot; with an object it installs
  that object. Either way the slot holds the new value whatever it held before.\<close>

theorem throw_exception_installs:
  "art_throw_exception_from_code None w =
     w\<lparr>self := ThrowNewException ''Ljava/lang/NullPointerException;''
                  (Some ''throw with null exception'') (self w)\<rparr> \<and>
   GetException (self (art_throw_exception_from_code None w)) =
     Some \<lparr>obj_class = ''Ljava/lang/NullPointerException;'',
           detail_message = Some ''throw with null exception''\<rparr> \<and>
   art_throw_exception_from_code (Some throwable) w =
     w\<lparr>self := SetException throwable (self w)\<rparr> \<and>
   GetException (self (art_throw_exception_from_code (Some throwable) w)) = Some throwable"
  by (simp add: art_throw_exception_from_code_def ThrowNewException_def SetException_def)

subsection \<open>Decoding a JNI handle\<close>

text \<open>Claim C10. With an exception pending, \<open>art_decode_jobject_in_thread\<close> returns null
  and leaves the thread as it is, so \<open>DecodeJObject\<close> is not called; with none pending
  it returns what \<open>DecodeJObject\<close> yields for the handle, and the call is recorded.\<close>

theorem decode_jobject_only_without_pending_exception:
  "(IsExceptionPending thread \<longrightarrow>
      art_decode_jobject_in_thread thread obj = (None, thread)) \<and>
   (\<not> IsExceptionPending thread \<longrightarrow>
      art_decode_jobject_in_thread thread obj =
        (jni_references thread obj,
         thread\<lparr>calls := calls thread @ [Call_DecodeJObject obj]\<rparr>))"
  by (simp add: art_decode_jobject_in_thread_def DecodeJObject_def)

theorem decode_jobject_only_without_pending_exception_witness:
  "IsExceptionPending (self throwing_world) \<and>
   art_decode_jobject_in_thread (self throwing_world) 7 = (None, self throwing_world) \<and>
   \<not> IsExceptionPending example_thread \<and>
   art_decode_jobject_in_thread example_thread 7 =
     (Some string_object, example_thread\<lparr>calls := [Call_DecodeJObject 7]\<rparr>)"
proof -
  have p: "IsExceptionPending (self throwing_world)"
    by (simp add: IsExceptionPending_def throwing_world_def)
  have n: "\<not> IsExceptionPending example_thread"
    by (simp add: IsExceptionPending_def example_thread_def)
  have "art_decode_jobject_in_thread (self throwing_world) 7 = (None, self throwing_world)"
    using decode_jobject_only_without_pending_exception [of "self throwing_world" 7] p
    by blast
  moreover have "art_decode_jobject_in_thread example_thread 7 =
     (Some string_object, example_thread\<lparr>calls := [Call_DecodeJObject 7]\<rparr>)"
    using decode_jobject_only_without_pending_exception [of example_thread 7] n
    by (simp add: example_thread_def)
  ultimately show ?thesis
    using p n by blast
qed

subsection \<open>Runtime support function lookup\<close>

lemma of_char_pos:
  "c \<noteq> CHR 0x00 \<Longrightarrow> 0 < (of_char c :: nat)"
proof -
  assume "c \<noteq> CHR 0x00"
  then have "(of_char c :: nat) \<noteq> of_char (CHR 0x00)"
    by (simp only: of_char_eq_iff not_False_eq_True)
  then show ?thesis by simp
qed

lemma strcmp_less_iff:
  "cstring a \<Longrightarrow> cstring b \<Longrightarrow> (strcmp a b < 0) = (a < b)"
proof (induction a b rule: strcmp.induct)
  case 1
  show ?case by simp
next
  case (2 y ys)
  then have "y \<noteq> CHR 0x00"
    by (auto simp: cstring_def)
  then have "0 < (of_char y :: nat)"
    by (rule of_char_pos)
  then show ?case by simp
next
  case (3 x xs)
  show ?case by simp
next
  case (4 x xs y ys)
  then have "cstring xs" "cstring ys"
    by (simp_all add: cstring_def)
  with 4 show ?case
    by (auto simp: less_char_def)
qed

lemma strcmp_zero_iff:
  "cstring a \<Longrightarrow> cstring b \<Longrightarrow> (strcmp a b = 0) = (a = b)"
proof (induction a b rule: strcmp.induct)
  case 1
  show ?case by simp
next
  case (2 y ys)
  then have "y \<noteq> CHR 0x00"
    by (auto simp: cstring_def)
  then have "0 < (of_char y :: nat)"
    by (rule of_char_pos)
  then show ?case by simp
next
  case (3 x xs)
  then have "x \<noteq> CHR 0x00"
    by (auto simp: cstring_def)
  then have "0 < (of_char x :: nat)"
    by (rule of_char_pos)
  then show ?case by simp
next
  case (4 x xs y ys)
  then have "cstring xs" "cstring ys"
    by (simp_all add: cstring_def)
  with 4 show ?case
    by auto
qed

lemma lower_bound_partition:
  assumes "sorted_wrt (<) names"
    and "\<forall>n \<in> set names. cstring n" and "cstring val"
    and "first + len \<le> length names"
    and "\<forall>i < first. names ! i < val"
    and "\<forall>i. first + len \<le> i \<and> i < length names \<longrightarrow> \<not> names ! i < val"
  shows "lower_bound names first len val \<le> length names \<and>
         (\<forall>i < lower_bound names first len val. names ! i < val) \<and>
         (\<forall>i. lower_bound names first len val \<le> i \<and> i < length names \<longrightarrow>
              \<not> names ! i < val)"
  using assms
proof (induction names first len val rule: lower_bound.induct)
  case (1 names first len val)
  show ?case
  proof (cases "0 < len")
    case False
    then have "lower_bound names first len val = first"
      by (simp add: lower_bound.simps)
    with False 1(3-) show ?thesis
      by simp
  next
    case True
    define half where "half = len div 2"
    define middle where "middle = first + half"
    have mid_lt: "middle < length names"
      using True "1.prems"(4) unfolding middle_def half_def by simp
    then have cmid: "cstring (names ! middle)"
      using "1.prems"(2) by simp
    show ?thesis
    proof (cases "CStringComparator (names ! middle) val")
      case less: True
      then have lt: "names ! middle < val"
        using cmid "1.prems"(3) by (simp add: CStringComparator_def strcmp_less_iff)
      have step: "lower_bound names first len val =
          lower_bound names (middle + 1) (len - half - 1) val"
        using True less
        by (subst lower_bound.simps) (simp add: Let_def half_def middle_def)
      have below: "\<forall>i < middle + 1. names ! i < val"
      proof (intro allI impI)
        fix i assume "i < middle + 1"
        show "names ! i < val"
        proof (cases "i = middle")
          case True
          with lt show ?thesis by simp
        next
          case False
          with \<open>i < middle + 1\<close> have "i < middle" by simp
          then have "names ! i < names ! middle"
            using "1.prems"(1) mid_lt by (simp add: sorted_wrt_iff_nth_less)
          with lt show ?thesis by simp
        qed
      qed
      have bound: "middle + 1 + (len - half - 1) \<le> length names"
        using True "1.prems"(4) unfolding middle_def half_def by simp
      have same_end: "middle + 1 + (len - half - 1) = first + len"
        using True unfolding middle_def half_def by simp
      have above: "\<forall>i. middle + 1 + (len - half - 1) \<le> i \<and> i < length names \<longrightarrow>
          \<not> names ! i < val"
        using "1.prems"(6) unfolding same_end by simp
      have ih: "lower_bound names (middle + 1) (len - half - 1) val \<le> length names \<and>
         (\<forall>i < lower_bound names (middle + 1) (len - half - 1) val. names ! i < val) \<and>
         (\<forall>i. lower_bound names (middle + 1) (len - half - 1) val \<le> i \<and> i < length names
              \<longrightarrow> \<not> names ! i < val)"
        using "1.IH"(1) [OF True refl refl less [unfolded middle_def half_def]
            "1.prems"(1) "1.prems"(2) "1.prems"(3)
            bound [unfolded middle_def half_def] below [unfolded middle_def half_def]
            above [unfolded middle_def half_def]]
        unfolding middle_def half_def .
      show ?thesis
        unfolding step by (rule ih)
    next
      case geq: False
      then have nlt: "\<not> names ! middle < val"
        using cmid "1.prems"(3) by (simp add: CStringComparator_def strcmp_less_iff)
      have step: "lower_bound names first len val = lower_bound names first half val"
        using True geq
        by (subst lower_bound.simps) (simp add: Let_def half_def middle_def)
      have bound: "first + half \<le> length names"
        using "1.prems"(4) unfolding half_def by simp
      have above: "\<forall>i. first + half \<le> i \<and> i < length names \<longrightarrow> \<not> names ! i < val"
      proof (intro allI impI)
        fix i assume i: "first + half \<le> i \<and> i < length names"
        show "\<not> names ! i < val"
        proof (cases "i = middle")
          case True
          with nlt show ?thesis by simp
        next
          case False
          with i have "middle < i" unfolding middle_def by simp
          then have "names ! middle < names ! i"
            using "1.prems"(1) i by (simp add: sorted_wrt_iff_nth_less)
          with nlt show ?thesis by auto
        qed
      qed
      have ih: "lower_bound names first half val \<le> length names \<and>
         (\<forall>i < lower_bound names first half val. names ! i < val) \<and>
         (\<forall>i. lower_bound names first half val \<le> i \<and> i < length names
              \<longrightarrow> \<not> names ! i < val)"
        using "1.IH"(2) [OF True refl refl geq [unfolded middle_def half_def]
            "1.prems"(1) "1.prems"(2) "1.prems"(3)
            bound [unfolded half_def] "1.prems"(5) above [unfolded half_def]]
        unfolding half_def .
      show ?thesis
        unfolding step by (rule ih)
    qed
  qed
qed

lemma sorted_by_strcmp:
  assumes "sorted_wrt CStringComparator names" and "\<forall>n \<in> set names. cstring n"
  shows "sorted_wrt (<) names"
proof (rule sorted_wrt_mono_rel [OF _ assms(1)])
  fix x y assume "x \<in> set names" "y \<in> set names" "CStringComparator x y"
  with assms(2) show "x < y"
    by (simp add: CStringComparator_def strcmp_less_iff)
qed

lemma compiler_runtime_func_found:
  assumes sorted: "sorted_wrt CStringComparator (map fst func_list)"
    and cs: "\<forall>n \<in> set (map fst func_list). cstring n" and cn: "cstring nm"
  shows "art_find_compiler_runtime_func func_list nm = map_of func_list nm"
proof -
  define names where "names = map fst func_list"
  define r where "r = lower_bound names 0 (length names) nm"
  have st: "sorted_wrt (<) names"
    using sorted cs unfolding names_def by (rule sorted_by_strcmp)
  then have dist: "distinct names"
    by (simp add: strict_sorted_iff)
  have part: "r \<le> length names \<and> (\<forall>i < r. names ! i < nm) \<and>
      (\<forall>i. r \<le> i \<and> i < length names \<longrightarrow> \<not> names ! i < nm)"
    unfolding r_def
    by (rule lower_bound_partition) (use st cs cn in \<open>auto simp: names_def\<close>)
  have run: "art_find_compiler_runtime_func func_list nm =
      (if r < length names \<and> strcmp (names ! r) nm = 0
       then Some (map snd func_list ! r) else None)"
    unfolding art_find_compiler_runtime_func_def Let_def names_def r_def ..
  have cs': "\<forall>i < length names. cstring (names ! i)"
    using cs unfolding names_def by simp
  show ?thesis
  proof (cases "r < length names \<and> names ! r = nm")
    case True
    with cn have z: "strcmp (names ! r) nm = 0"
      by (simp add: strcmp_zero_iff)
    have rl: "r < length func_list"
      using True unfolding names_def by simp
    have "func_list ! r \<in> set func_list"
      using rl by simp
    moreover have "func_list ! r = (nm, map snd func_list ! r)"
      using True rl unfolding names_def by (simp add: prod_eq_iff)
    ultimately have "(nm, map snd func_list ! r) \<in> set func_list"
      by simp
    then have "map_of func_list nm = Some (map snd func_list ! r)"
      using dist unfolding names_def by (rule map_of_is_SomeI [rotated])
    with run True z show ?thesis by simp
  next
    case False
    have absent: "nm \<notin> set names"
    proof
      assume "nm \<in> set names"
      then obtain j where j: "j < length names" "names ! j = nm"
        by (auto simp: in_set_conv_nth)
      have "r \<le> j"
      proof (rule ccontr)
        assume "\<not> r \<le> j"
        then have "names ! j < nm" using part by simp
        with j show False by simp
      qed
      moreover have "\<not> r < j"
      proof
        assume "r < j"
        then have "names ! r < names ! j"
          using st j(1) by (auto simp: sorted_wrt_iff_nth_less)
        moreover have "\<not> names ! r < nm"
          using part \<open>r < j\<close> j by simp
        ultimately show False using j by simp
      qed
      ultimately have "r = j" by simp
      with j False show False by simp
    qed
    then have none: "map_of func_list nm = None"
      unfolding names_def by (simp add: map_of_eq_None_iff)
    have "\<not> (r < length names \<and> strcmp (names ! r) nm = 0)"
    proof
      assume a: "r < length names \<and> strcmp (names ! r) nm = 0"
      then have "cstring (names ! r)"
        using cs' by blast
      with a cn have "names ! r = nm"
        by (simp add: strcmp_zero_iff)
      with a False show False by simp
    qed
    with run none show ?thesis by simp
  qed
qed

lemma scan_tab_find:
  assumes "\<forall>e \<in> set tab. cstring (entry_name e)" and "cstring nm"
  shows "scan_tab tab nm (strlen nm) =
     map_option entry_addr
       (find (\<lambda>e. entry_name_len e = strlen nm \<and> entry_name e = nm) tab)"
  using assms
proof (induction tab)
  case Nil
  show ?case by simp
next
  case (Cons e tab)
  then have "(strcmp nm (entry_name e) = 0) = (entry_name e = nm)"
    by (auto simp: strcmp_zero_iff)
  with Cons show ?case
    by auto
qed

text \<open>Claim C3. Let the table of compiler runtime functions be sorted by \<open>strcmp\<close>, as
  the binary search needs, and let the names be C strings. Then
  \<open>art_find_runtime_support_func\<close> returns the address registered for the name in that
  table when the name is there; otherwise the address of the first entry of the table
  of runtime support functions whose length and content are those of the name; and
  when the name is in neither table it ends the process with \<open>LOG(FATAL)\<close>. It returns
  an address exactly when the name is in one of the two tables.\<close>

theorem runtime_support_func_lookup:
  assumes sorted: "sorted_wrt CStringComparator (map fst compiler_runtime_func_list)"
    and compiler_names: "\<forall>n \<in> set (map fst compiler_runtime_func_list). cstring n"
    and support_names: "\<forall>n \<in> set (map fst runtime_support_func_list). cstring n"
    and name: "cstring nm"
  shows "art_find_runtime_support_func compiler_runtime_func_list runtime_support_func_list
           context_addr nm =
         (case map_of compiler_runtime_func_list nm of
            Some a \<Rightarrow> Inr a
          | None \<Rightarrow>
              (case find (\<lambda>e. entry_name_len e = length nm \<and> entry_name e = nm)
                      (map DEFINE_ENTRY runtime_support_func_list) of
                 Some e \<Rightarrow> Inr (entry_addr e)
               | None \<Rightarrow> Inl (LogFatal (''Error: Can'' @ [CHR 0x27] @ ''t find symbol '' @ nm))))
         \<and>
         ((\<exists>a. art_find_runtime_support_func compiler_runtime_func_list
                  runtime_support_func_list context_addr nm = Inr a) \<longleftrightarrow>
          nm \<in> set (map fst compiler_runtime_func_list) \<or>
          nm \<in> set (map fst runtime_support_func_list))"
proof -
  have first: "art_find_compiler_runtime_func compiler_runtime_func_list nm =
      map_of compiler_runtime_func_list nm"
    using sorted compiler_names name by (rule compiler_runtime_func_found)
  have "\<forall>e \<in> set (map DEFINE_ENTRY runtime_support_func_list). cstring (entry_name e)"
    using support_names by (simp add: DEFINE_ENTRY_def)
  then have second: "scan_tab (map DEFINE_ENTRY runtime_support_func_list) nm (strlen nm) =
      map_option entry_addr
        (find (\<lambda>e. entry_name_len e = strlen nm \<and> entry_name e = nm)
           (map DEFINE_ENTRY runtime_support_func_list))"
    using name by (rule scan_tab_find)
  have eq: "art_find_runtime_support_func compiler_runtime_func_list runtime_support_func_list
           context_addr nm =
         (case map_of compiler_runtime_func_list nm of
            Some a \<Rightarrow> Inr a
          | None \<Rightarrow>
              (case find (\<lambda>e. entry_name_len e = length nm \<and> entry_name e = nm)
                      (map DEFINE_ENTRY runtime_support_func_list) of
                 Some e \<Rightarrow> Inr (entry_addr e)
               | None \<Rightarrow> Inl (LogFatal (''Error: Can'' @ [CHR 0x27] @ ''t find symbol '' @ nm))))"
    by (simp add: art_find_runtime_support_func_def Let_def first
        second [unfolded strlen_def] strlen_def split: option.splits)
  have in1: "(map_of compiler_runtime_func_list nm = None) =
      (nm \<notin> set (map fst compiler_runtime_func_list))"
    by (simp add: map_of_eq_None_iff)
  have in2: "(find (\<lambda>e. entry_name_len e = length nm \<and> entry_name e = nm)
                (map DEFINE_ENTRY runtime_support_func_list) = None) =
      (nm \<notin> set (map fst runtime_support_func_list))"
    by (auto simp: find_None_iff DEFINE_ENTRY_def)
  show ?thesis
    unfolding eq using in1 in2
    by (auto split: option.splits)
qed

theorem runtime_support_func_lookup_witness:
  "sorted_wrt CStringComparator (map fst example_compiler_runtime_func_list) \<and>
   list_all cstring (map fst example_compiler_runtime_func_list) \<and>
   list_all cstring (map fst example_runtime_support_func_list) \<and>
   cstring ''__divdi3'' \<and> cstring ''art_throw_div_zero_from_code'' \<and>
   cstring ''art_missing'' \<and>
   art_find_runtime_support_func example_compiler_runtime_func_list
       example_runtime_support_func_list 0 ''__divdi3'' = Inr 4100 \<and>
   art_find_runtime_support_func example_compiler_runtime_func_list
       example_runtime_support_func_list 0 ''art_throw_div_zero_from_code'' = Inr 8196 \<and>
   art_find_runtime_support_func example_compiler_runtime_func_list
       example_runtime_support_func_list 0 ''art_missing'' =
     Inl (LogFatal (''Error: Can'' @ [CHR 0x27] @ ''t find symbol art_missing''))"
proof -
  have s: "sorted_wrt CStringComparator (map fst example_compiler_runtime_func_list)"
    by (simp add: example_compiler_runtime_func_list_def CStringComparator_def)
  have c1: "\<forall>n \<in> set (map fst example_compiler_runtime_func_list). cstring n"
    by (simp add: example_compiler_runtime_func_list_def cstring_def)
  have c2: "\<forall>n \<in> set (map fst example_runtime_support_func_list). cstring n"
    by (simp add: example_runtime_support_func_list_def cstring_def)
  have n1: "cstring ''__divdi3''" and n2: "cstring ''art_throw_div_zero_from_code''"
    and n3: "cstring ''art_missing''"
    by (simp_all add: cstring_def)
  note a = runtime_support_func_lookup [OF s c1 c2 n1, of 0, THEN conjunct1]
  note b = runtime_support_func_lookup [OF s c1 c2 n2, of 0, THEN conjunct1]
  note c = runtime_support_func_lookup [OF s c1 c2 n3, of 0, THEN conjunct1]
  have 1: "art_find_runtime_support_func example_compiler_runtime_func_list
       example_runtime_support_func_list 0 ''__divdi3'' = Inr 4100"
    unfolding a by (simp add: example_compiler_runtime_func_list_def)
  have 2: "art_find_runtime_support_func example_compiler_runtime_func_list
       example_runtime_support_func_list 0 ''art_throw_div_zero_from_code'' = Inr 8196"
    unfolding b
    by (simp add: example_compiler_runtime_func_list_def
        example_runtime_support_func_list_def DEFINE_ENTRY_def)
  have 3: "art_find_runtime_support_func example_compiler_runtime_func_list
       example_runtime_support_func_list 0 ''art_missing'' =
     Inl (LogFatal (''Error: Can'' @ [CHR 0x27] @ ''t find symbol art_missing''))"
    unfolding c
    by (simp add: example_compiler_runtime_func_list_def
        example_runtime_support_func_list_def DEFINE_ENTRY_def)
  from s c1 c2 n1 n2 n3 1 2 3 show ?thesis
    by (simp add: list_all_iff)
qed

subsection \<open>Field and method resolution\<close>

lemma slow_path_failure_pending:
  "FindFieldFromCode rs field_idx referrer is_static is_primitive is_set expected_size w =
     (None, w1) \<Longrightarrow> IsExceptionPending (self w1)"
  by (auto simp: FindFieldFromCode_def IsExceptionPending_def SetException_def
      split: option.splits if_splits)

lemma write_contractI:
  assumes "\<And>w1. slow = (None, w1) \<Longrightarrow> IsExceptionPending (self w1)"
    and "res = (case fast of
        Some field \<Rightarrow> (0, store field w)
      | None \<Rightarrow>
          (case slow of
             (Some field, w1) \<Rightarrow> (0, store field w1)
           | (None, w1) \<Rightarrow> (- 1, w1)))"
  shows "write_contract fast slow store w res"
  using assms by (auto simp: write_contract_def split: option.splits prod.splits)

lemma read_contractI:
  assumes "\<And>w1. slow = (None, w1) \<Longrightarrow> IsExceptionPending (self w1)"
    and "res = (case fast of
        Some field \<Rightarrow> (load field w, w)
      | None \<Rightarrow>
          (case slow of
             (Some field, w1) \<Rightarrow> (load field w1, w1)
           | (None, w1) \<Rightarrow> (sentinel, w1)))"
  shows "read_contract fast slow load sentinel w res"
  using assms by (auto simp: read_contract_def split: option.splits prod.splits)

lemma zero_read_ambiguous:
  "art_get32_static_from_code example_resolver 1 0 example_world =
     (0, example_world\<lparr>resolved_fields := (resolved_fields example_world)((0, 1) \<mapsto> 100)\<rparr>)"
  "art_get32_static_from_code example_resolver 2 0 example_world =
     (0, example_world\<lparr>self := SetException
            \<lparr>obj_class = ''Ljava/lang/NoSuchFieldError;'', detail_message = None\<rparr>
            (self example_world)\<rparr>)"
  by (simp_all add: art_get32_static_from_code_def FindFieldFast_def FindFieldFromCode_def
      example_resolver_def example_world_def Get32_def)

text \<open>Claim C4. Each of the six write entry points returns 0 exactly when the fast path
  or, after it missed, the slow path resolves the field, and then the typed store has
  been performed on that field; when both fail it returns a non-zero status and an
  exception is pending. Each of the six read entry points returns the value read on
  success, and the zero or null sentinel with an exception pending on failure. A read
  that succeeds can return the sentinel too, so only the pending-exception slot tells
  the two apart.\<close>

theorem field_access_status_encoding:
  "write_contract (FindFieldFast rs field_idx referrer True True 4 w)
     (FindFieldFromCode rs field_idx referrer True True True 4 w)
     (\<lambda>field. Set32 field None v32) w
     (art_set32_static_from_code rs field_idx referrer v32 w) \<and>
   write_contract (FindFieldFast rs field_idx referrer True True 8 w)
     (FindFieldFromCode rs field_idx referrer True True True 8 w)
     (\<lambda>field. Set64 field None v64) w
     (art_set64_static_from_code rs field_idx referrer v64 w) \<and>
   write_contract (FindFieldFast rs field_idx referrer False True (sizeof_pointer rs) w)
     (FindFieldFromCode rs field_idx referrer True False True (sizeof_pointer rs) w)
     (\<lambda>field. SetObj field None vobj) w
     (art_set_obj_static_from_code rs field_idx referrer vobj w) \<and>
   read_contract (FindFieldFast rs field_idx referrer True False 4 w)
     (FindFieldFromCode rs field_idx referrer True True False 4 w)
     (\<lambda>field. Get32 field None) 0 w
     (art_get32_static_from_code rs field_idx referrer w) \<and>
   read_contract (FindFieldFast rs field_idx referrer True False 8 w)
     (FindFieldFromCode rs field_idx referrer True True False 8 w)
     (\<lambda>field. Get64 field None) 0 w
     (art_get64_static_from_code rs field_idx referrer w) \<and>
   read_contract (FindFieldFast rs field_idx referrer False False (sizeof_pointer rs) w)
     (FindFieldFromCode rs field_idx referrer True False False (sizeof_pointer rs) w)
     (\<lambda>field. GetObj field None) None w
     (art_get_obj_static_from_code rs field_idx referrer w) \<and>
   write_contract (FindFieldFast rs field_idx referrer True True 4 w)
     (FindFieldFromCode rs field_idx referrer False True True 4 w)
     (\<lambda>field. Set32 field obj v32) w
     (art_set32_instance_from_code rs field_idx referrer obj v32 w) \<and>
   write_contract (FindFieldFast rs field_idx referrer True True 8 w)
     (FindFieldFromCode rs field_idx referrer False True True 8 w)
     (\<lambda>field. Set64 field obj v64) w
     (art_set64_instance_from_code rs field_idx referrer obj v64 w) \<and>
   write_contract (FindFieldFast rs field_idx referrer False True (sizeof_pointer rs) w)
     (FindFieldFromCode rs field_idx referrer False False True (sizeof_pointer rs) w)
     (\<lambda>field. SetObj field obj vobj) w
     (art_set_obj_instance_from_code rs field_idx referrer obj vobj w) \<and>
   read_contract (FindFieldFast rs field_idx referrer True False 4 w)
     (FindFieldFromCode rs field_idx referrer False True False 4 w)
     (\<lambda>field. Get32 field obj) 0 w
     (art_get32_instance_from_code rs field_idx referrer obj w) \<and>
   read_contract (FindFieldFast rs field_idx referrer True False 8 w)
     (FindFieldFromCode rs field_idx referrer False True False 8 w)
     (\<lambda>field. Get64 field obj) 0 w
     (art_get64_instance_from_code rs field_idx referrer obj w) \<and>
   read_contract (FindFieldFast rs field_idx referrer False False (sizeof_pointer rs) w)
     (FindFieldFromCode rs field_idx referrer False False False (sizeof_pointer rs) w)
     (\<lambda>field. GetObj field obj) None w
     (art_get_obj_instance_from_code rs field_idx referrer obj w) \<and>
   (\<exists>rs field_idx referrer w w'.
      art_get32_static_from_code rs field_idx referrer w = (0, w') \<and>
      \<not> IsExceptionPending (self w')) \<and>
   (\<exists>rs field_idx referrer w w'.
      art_get32_static_from_code rs field_idx referrer w = (0, w') \<and>
      IsExceptionPending (self w'))"
proof -
  have c1: "write_contract (FindFieldFast rs field_idx referrer True True 4 w)
     (FindFieldFromCode rs field_idx referrer True True True 4 w)
     (\<lambda>field. Set32 field None v32) w
     (art_set32_static_from_code rs field_idx referrer v32 w)"
    by (rule write_contractI, erule slow_path_failure_pending, simp add: art_set32_static_from_code_def)
  have c2: "write_contract (FindFieldFast rs field_idx referrer True True 8 w)
     (FindFieldFromCode rs field_idx referrer True True True 8 w)
     (\<lambda>field. Set64 field None v64) w
     (art_set64_static_from_code rs field_idx referrer v64 w)"
    by (rule write_contractI, erule slow_path_failure_pending, simp add: art_set64_static_from_code_def)
  have c3: "write_contract (FindFieldFast rs field_idx referrer False True (sizeof_pointer rs) w)
     (FindFieldFromCode rs field_idx referrer True False True (sizeof_pointer rs) w)
     (\<lambda>field. SetObj field None vobj) w
     (art_set_obj_static_from_code rs field_idx referrer vobj w)"
    by (rule write_contractI, erule slow_path_failure_pending, simp add: art_set_obj_static_from_code_def)
  have c4: "read_contract (FindFieldFast rs field_idx referrer True False 4 w)
     (FindFieldFromCode rs field_idx referrer True True False 4 w)
     (\<lambda>field. Get32 field None) 0 w
     (art_get32_static_from_code rs field_idx referrer w)"
    by (rule read_contractI, erule slow_path_failure_pending, simp add: art_get32_static_from_code_def)
  have c5: "read_contract (FindFieldFast rs field_idx referrer True False 8 w)
     (FindFieldFromCode rs field_idx referrer True True False 8 w)
     (\<lambda>field. Get64 field None) 0 w
     (art_get64_static_from_code rs field_idx referrer w)"
    by (rule read_contractI, erule slow_path_failure_pending, simp add: art_get64_static_from_code_def)
  have c6: "read_contract (FindFieldFast rs field_idx referrer False False (sizeof_pointer rs) w)
     (FindFieldFromCode rs field_idx referrer True False False (sizeof_pointer rs) w)
     (\<lambda>field. GetObj field None) None w
     (art_get_obj_static_from_code rs field_idx referrer w)"
    by (rule read_contractI, erule slow_path_failure_pending, simp add: art_get_obj_static_from_code_def)
  have c7: "write_contract (FindFieldFast rs field_idx referrer True True 4 w)
     (FindFieldFromCode rs field_idx referrer False True True 4 w)
     (\<lambda>field. Set32 field obj v32) w
     (art_set32_instance_from_code rs field_idx referrer obj v32 w)"
    by (rule write_contractI, erule slow_path_failure_pending, simp add: art_set32_instance_from_code_def)
  have c8: "write_contract (FindFieldFast rs field_idx referrer True True 8 w)
     (FindFieldFromCode rs field_idx referrer False True True 8 w)
     (\<lambda>field. Set64 field obj v64) w
     (art_set64_instance_from_code rs field_idx referrer obj v64 w)"
    by (rule write_contractI, erule slow_path_failure_pending, simp add: art_set64_instance_from_code_def)
  have c9: "write_contract (FindFieldFast rs field_idx referrer False True (sizeof_pointer rs) w)
     (FindFieldFromCode rs field_idx referrer False False True (sizeof_pointer rs) w)
     (\<lambda>field. SetObj field obj vobj) w
     (art_set_obj_instance_from_code rs field_idx referrer obj vobj w)"
    by (rule write_contractI, erule slow_path_failure_pending, simp add: art_set_obj_instance_from_code_def)
  have c10: "read_contract (FindFieldFast rs field_idx referrer True False 4 w)
     (FindFieldFromCode rs field_idx referrer False True False 4 w)
     (\<lambda>field. Get32 field obj) 0 w
     (art_get32_instance_from_code rs field_idx referrer obj w)"
    by (rule read_contractI, erule slow_path_failure_pending, simp add: art_get32_instance_from_code_def)
  have c11: "read_contract (FindFieldFast rs field_idx referrer True False 8 w)
     (FindFieldFromCode rs field_idx referrer False True False 8 w)
     (\<lambda>field. Get64 field obj) 0 w
     (art_get64_instance_from_code rs field_idx referrer obj w)"
    by (rule read_contractI, erule slow_path_failure_pending, simp add: art_get64_instance_from_code_def)
  have c12: "read_contract (FindFieldFast rs field_idx referrer False False (sizeof_pointer rs) w)
     (FindFieldFromCode rs field_idx referrer False False False (sizeof_pointer rs) w)
     (\<lambda>field. GetObj field obj) None w
     (art_get_obj_instance_from_code rs field_idx referrer obj w)"
    by (rule read_contractI, erule slow_path_failure_pending, simp add: art_get_obj_instance_from_code_def)
  have ok: "\<exists>rs field_idx referrer w w'.
      art_get32_static_from_code rs field_idx referrer w = (0, w') \<and>
      \<not> IsExceptionPending (self w')"
    using zero_read_ambiguous(1)
    by (intro exI conjI, assumption)
      (simp add: IsExceptionPending_def example_world_def example_thread_def)
  have failed: "\<exists>rs field_idx referrer w w'.
      art_get32_static_from_code rs field_idx referrer w = (0, w') \<and>
      IsExceptionPending (self w')"
    using zero_read_ambiguous(2)
    by (intro exI conjI, assumption) (simp add: IsExceptionPending_def SetException_def)
  show ?thesis
    by (intro conjI c1 c2 c3 c4 c5 c6 c7 c8 c9 c10 c11 c12 ok failed)
qed

theorem field_access_status_encoding_witness:
  "art_set32_static_from_code example_resolver 1 0 42 cached_world =
     (0, Set32 100 None 42 cached_world) \<and>
   art_set32_static_from_code example_resolver 1 0 42 example_world =
     (0, Set32 100 None 42
           (example_world\<lparr>resolved_fields := (resolved_fields example_world)((0, 1) \<mapsto> 100)\<rparr>)) \<and>
   fst (art_set32_static_from_code example_resolver 2 0 42 example_world) = - 1 \<and>
   IsExceptionPending
     (self (snd (art_set32_static_from_code example_resolver 2 0 42 example_world))) \<and>
   fst (art_get32_static_from_code example_resolver 2 0 example_world) = 0 \<and>
   IsExceptionPending
     (self (snd (art_get32_static_from_code example_resolver 2 0 example_world)))"
proof -
  have fast_hit: "FindFieldFast example_resolver 1 0 True True 4 cached_world = Some 100"
    by (simp add: FindFieldFast_def cached_world_def example_resolver_def)
  have fast_miss: "FindFieldFast example_resolver i 0 True s 4 example_world = None" for i s
    by (simp add: FindFieldFast_def example_world_def)
  have slow_ok: "FindFieldFromCode example_resolver 1 0 True True True 4 example_world =
      (Some 100,
       example_world\<lparr>resolved_fields := (resolved_fields example_world)((0, 1) \<mapsto> 100)\<rparr>)"
    by (simp add: FindFieldFromCode_def example_resolver_def)
  have slow_fail: "FindFieldFromCode example_resolver 2 0 True True s 4 example_world =
      (None, example_world\<lparr>self := SetException
          \<lparr>obj_class = ''Ljava/lang/NoSuchFieldError;'', detail_message = None\<rparr>
          (self example_world)\<rparr>)" for s
    by (simp add: FindFieldFromCode_def example_resolver_def)
  note a = field_access_status_encoding
    [of example_resolver 1 0 cached_world 42, THEN conjunct1]
  note b = field_access_status_encoding
    [of example_resolver 1 0 example_world 42, THEN conjunct1]
  note c = field_access_status_encoding
    [of example_resolver 2 0 example_world 42, THEN conjunct1]
  note d = field_access_status_encoding
    [of example_resolver 2 0 example_world, THEN conjunct2, THEN conjunct2, THEN conjunct2,
      THEN conjunct1]
  have 1: "art_set32_static_from_code example_resolver 1 0 42 cached_world =
     (0, Set32 100 None 42 cached_world)"
    using a by (simp add: write_contract_def fast_hit)
  have 2: "art_set32_static_from_code example_resolver 1 0 42 example_world =
     (0, Set32 100 None 42
           (example_world\<lparr>resolved_fields := (resolved_fields example_world)((0, 1) \<mapsto> 100)\<rparr>))"
    using b by (simp add: write_contract_def fast_miss slow_ok)
  have 3: "fst (art_set32_static_from_code example_resolver 2 0 42 example_world) = - 1 \<and>
   IsExceptionPending
     (self (snd (art_set32_static_from_code example_resolver 2 0 42 example_world)))"
    using c
    by (simp add: write_contract_def fast_miss slow_fail art_set32_static_from_code_def)
  have 4: "fst (art_get32_static_from_code example_resolver 2 0 example_world) = 0 \<and>
   IsExceptionPending
     (self (snd (art_get32_static_from_code example_resolver 2 0 example_world)))"
    using d by (simp add: read_contract_def fast_miss slow_fail)
  from 1 2 3 4 show ?thesis by blast
qed

lemma field_paths_agree:
  assumes "cache_consistent rs w"
    and "FindFieldFast rs field_idx referrer is_primitive is_set expected_size w = Some f"
    and "FindFieldFromCode rs field_idx referrer is_static is_primitive is_set expected_size w
           = (Some g, w1)"
  shows "f = g"
proof -
  from assms(2) have "resolved_fields w (referrer, field_idx) = Some f"
    by (auto simp: FindFieldFast_def split: option.splits if_splits)
  with assms(1) have "ResolveField rs referrer field_idx = Some f"
    by (simp add: cache_consistent_def)
  with assms(3) show ?thesis
    by (auto simp: FindFieldFromCode_def split: if_splits)
qed

lemma method_paths_agree:
  assumes "cache_consistent rs w"
    and "FindMethodFast rs method_idx this_object caller access_check type w = Some m"
    and "FindMethodFromCode rs method_idx this_object caller access_check type w
           = (Some n, w1)"
  shows "m = n"
proof -
  from assms(2) obtain resolved where
    c: "resolved_methods w (caller, method_idx) = Some resolved"
    and t: "select_target rs type this_object caller access_check resolved = Some m"
    by (auto simp: FindMethodFast_def split: option.splits)
  from c assms(1) have "ResolveMethod rs caller method_idx = Some resolved"
    by (simp add: cache_consistent_def)
  with t assms(3) show ?thesis
    by (auto simp: FindMethodFromCode_def split: option.splits)
qed

lemma field_slow_path_keeps_cache_consistent:
  assumes "cache_consistent rs w"
  shows "cache_consistent rs
     (snd (FindFieldFromCode rs field_idx referrer is_static is_primitive is_set
             expected_size w))"
  using assms
  by (auto simp: cache_consistent_def FindFieldFromCode_def split: option.splits if_splits)

lemma method_slow_path_keeps_cache_consistent:
  assumes "cache_consistent rs w"
  shows "cache_consistent rs
     (snd (FindMethodFromCode rs method_idx this_object caller access_check type w))"
  using assms
  by (auto simp: cache_consistent_def FindMethodFromCode_def split: option.splits if_splits)

lemma helper_serves_slow_result:
  assumes "cache_consistent rs w"
    and slow: "FindMethodFromCode rs method_idx this_object caller access_check type w
           = (Some n, w1)"
    and ret: "FindMethodHelper rt rs method_idx this_object caller access_check type w
           = Inr (res, w2)"
  shows "res = Some n"
proof (cases "FindMethodFast rs method_idx this_object caller access_check type w")
  case None
  with slow ret show ?thesis
    by (auto simp: FindMethodHelper_def split: if_splits)
next
  case (Some m)
  with assms(1) slow have "m = n"
    by (auto dest: method_paths_agree)
  with Some ret show ?thesis
    by (auto simp: FindMethodHelper_def split: if_splits)
qed

lemma set32_instance_writes_slow_field:
  assumes "cache_consistent rs w"
    and slow: "FindFieldFromCode rs field_idx referrer False True True 4 w = (Some g, w1)"
  shows "art_set32_instance_from_code rs field_idx referrer obj new_value w =
           (0, Set32 g obj new_value w) \<or>
         art_set32_instance_from_code rs field_idx referrer obj new_value w =
           (0, Set32 g obj new_value w1)"
proof (cases "FindFieldFast rs field_idx referrer True True 4 w")
  case None
  with slow show ?thesis
    by (simp add: art_set32_instance_from_code_def)
next
  case (Some f)
  with assms have "f = g"
    by (auto dest: field_paths_agree)
  with Some show ?thesis
    by (simp add: art_set32_instance_from_code_def)
qed

text \<open>Claim C2. In a state whose caches hold only results of resolution: for the same
  caller, index and receiver, a field the fast path yields is the field the slow path
  yields, and likewise for methods, whenever both succeed. So \<open>FindMethodHelper\<close>, when
  it returns, returns the method the slow path alone would have returned, and
  \<open>art_set32_instance_from_code\<close> writes the field the slow path alone would have
  resolved, whichever path served the call. The slow paths keep the caches in that
  condition.\<close>

theorem fast_and_slow_resolution_agree:
  assumes "cache_consistent rs w"
  shows "(FindFieldFast rs field_idx referrer is_primitive is_set expected_size w = Some f \<and>
          FindFieldFromCode rs field_idx referrer is_static is_primitive is_set
            expected_size w = (Some g, w1) \<longrightarrow> f = g) \<and>
         (FindMethodFast rs method_idx this_object caller access_check type w = Some m \<and>
          FindMethodFromCode rs method_idx this_object caller access_check type w
            = (Some n, w2) \<longrightarrow> m = n) \<and>
         (FindMethodFromCode rs method_idx this_object caller access_check type w
            = (Some n, w2) \<and>
          FindMethodHelper rt rs method_idx this_object caller access_check type w
            = Inr (res, w3) \<longrightarrow> res = Some n) \<and>
         (FindFieldFromCode rs field_idx referrer False True True 4 w = (Some g, w1) \<longrightarrow>
            art_set32_instance_from_code rs field_idx referrer obj new_value w =
              (0, Set32 g obj new_value w) \<or>
            art_set32_instance_from_code rs field_idx referrer obj new_value w =
              (0, Set32 g obj new_value w1)) \<and>
         cache_consistent rs
           (snd (FindFieldFromCode rs field_idx referrer is_static is_primitive is_set
                   expected_size w)) \<and>
         cache_consistent rs
           (snd (FindMethodFromCode rs method_idx this_object caller access_check type w))"
proof (intro conjI impI)
  assume "FindFieldFast rs field_idx referrer is_primitive is_set expected_size w = Some f \<and>
      FindFieldFromCode rs field_idx referrer is_static is_primitive is_set
        expected_size w = (Some g, w1)"
  with assms show "f = g"
    by (blast intro: field_paths_agree)
next
  assume "FindMethodFast rs method_idx this_object caller access_check type w = Some m \<and>
      FindMethodFromCode rs method_idx this_object caller access_check type w = (Some n, w2)"
  with assms show "m = n"
    by (blast intro: method_paths_agree)
next
  assume "FindMethodFromCode rs method_idx this_object caller access_check type w
        = (Some n, w2) \<and>
      FindMethodHelper rt rs method_idx this_object caller access_check type w
        = Inr (res, w3)"
  with assms show "res = Some n"
    by (blast intro: helper_serves_slow_result)
next
  assume "FindFieldFromCode rs field_idx referrer False True True 4 w = (Some g, w1)"
  with assms show "art_set32_instance_from_code rs field_idx referrer obj new_value w =
        (0, Set32 g obj new_value w) \<or>
      art_set32_instance_from_code rs field_idx referrer obj new_value w =
        (0, Set32 g obj new_value w1)"
    by (rule set32_instance_writes_slow_field)
next
  from assms show "cache_consistent rs
      (snd (FindFieldFromCode rs field_idx referrer is_static is_primitive is_set
              expected_size w))"
    by (rule field_slow_path_keeps_cache_consistent)
next
  from assms show "cache_consistent rs
      (snd (FindMethodFromCode rs method_idx this_object caller access_check type w))"
    by (rule method_slow_path_keeps_cache_consistent)
qed

theorem fast_and_slow_resolution_agree_witness:
  "cache_consistent example_resolver cached_world \<and>
   FindFieldFast example_resolver 1 0 True True 4 cached_world = Some 100 \<and>
   fst (FindFieldFromCode example_resolver 1 0 True True True 4 cached_world) = Some 100 \<and>
   FindMethodFast example_resolver 3 (Some string_object) 0 True kVirtual cached_world
     = Some 300 \<and>
   fst (FindMethodFromCode example_resolver 3 (Some string_object) 0 True kVirtual
          cached_world) = Some 300 \<and>
   FindMethodHelper example_runtime example_resolver 3 (Some string_object) 0 True kVirtual
     cached_world = Inr (Some 300, cached_world) \<and>
   cache_consistent example_resolver example_world \<and>
   FindMethodHelper example_runtime example_resolver 3 (Some string_object) 0 True kVirtual
     example_world =
     Inr (Some 300,
          example_world\<lparr>resolved_methods := (resolved_methods example_world)((0, 3) \<mapsto> 300)\<rparr>)"
proof -
  have cc: "cache_consistent example_resolver cached_world"
    by (simp add: cache_consistent_def cached_world_def example_resolver_def)
  have ce: "cache_consistent example_resolver example_world"
    by (simp add: cache_consistent_def example_world_def)
  have ff: "FindFieldFast example_resolver 1 0 True True 4 cached_world = Some 100"
    by (simp add: FindFieldFast_def cached_world_def example_resolver_def)
  have fs: "FindFieldFromCode example_resolver 1 0 True True True 4 cached_world =
      (Some 100,
       cached_world\<lparr>resolved_fields := (resolved_fields cached_world)((0, 1) \<mapsto> 100)\<rparr>)"
    by (simp add: FindFieldFromCode_def example_resolver_def)
  have mf: "FindMethodFast example_resolver 3 (Some string_object) 0 True kVirtual
      cached_world = Some 300"
    by (simp add: FindMethodFast_def cached_world_def example_resolver_def)
  have ms: "FindMethodFromCode example_resolver 3 (Some string_object) 0 True kVirtual
       cached_world =
     (Some 300,
      cached_world\<lparr>resolved_methods := (resolved_methods cached_world)((0, 3) \<mapsto> 300)\<rparr>)"
    by (simp add: FindMethodFromCode_def example_resolver_def)
  have np: "\<not> IsExceptionPending (self cached_world)"
      "\<not> IsExceptionPending (self example_world)"
    by (simp_all add: IsExceptionPending_def cached_world_def example_world_def
        example_thread_def)
  have h1: "FindMethodHelper example_runtime example_resolver 3 (Some string_object) 0 True
      kVirtual cached_world = Inr (Some 300, cached_world)"
    using np by (simp add: FindMethodHelper_def mf)
  have mf0: "FindMethodFast example_resolver 3 (Some string_object) 0 True kVirtual
      example_world = None"
    by (simp add: FindMethodFast_def example_world_def)
  have ms0: "FindMethodFromCode example_resolver 3 (Some string_object) 0 True kVirtual
       example_world =
     (Some 300,
      example_world\<lparr>resolved_methods := (resolved_methods example_world)((0, 3) \<mapsto> 300)\<rparr>)"
    by (simp add: FindMethodFromCode_def example_resolver_def)
  have h2: "FindMethodHelper example_runtime example_resolver 3 (Some string_object) 0 True
      kVirtual example_world =
     Inr (Some 300,
          example_world\<lparr>resolved_methods := (resolved_methods example_world)((0, 3) \<mapsto> 300)\<rparr>)"
    using np by (simp add: FindMethodHelper_def mf0 ms0 IsExceptionPending_def)
  have served: "Some (300::nat) = Some 300"
    using fast_and_slow_resolution_agree [OF cc,
        where method_idx = 3 and this_object = "Some string_object" and caller = 0
          and access_check = True and type = kVirtual and n = 300
          and rt = example_runtime and res = "Some 300" and ?w3.0 = cached_world]
      ms h1
    by blast
  have f1: "fst (FindFieldFromCode example_resolver 1 0 True True True 4 cached_world) =
      Some 100"
    by (simp add: fs)
  have m1: "fst (FindMethodFromCode example_resolver 3 (Some string_object) 0 True kVirtual
      cached_world) = Some 300"
    by (simp add: ms)
  from served cc ff f1 mf m1 h1 ce h2 show ?thesis
    by blast
qed

end
